theory Spec2Isabelle
  imports Main "HOL-Library.Word"
begin

section \<open>TempHumidDisplay: data model\<close>

text \<open>
  The sketch \<^verbatim>\<open>TempHumidDisplay.ino\<close> (the configurable revision, the second one in the
  file) runs on an 8-bit Arduino: \<^verbatim>\<open>byte\<close> is an 8-bit word, \<^verbatim>\<open>int\<close> has 16 bits,
  \<^verbatim>\<open>long\<close> and \<^verbatim>\<open>unsigned long\<close> have 32 bits. The two thresholds and the time stamps
  are modelled as words, because the sketch does arithmetic on them; temperature and
  humidity are only copied and compared, and are modelled as integers.
\<close>

type_synonym byte = "8 word"
type_synonym ulong = "32 word"

definition DISPLAY_NCHIP :: nat where
  "DISPLAY_NCHIP = 1"

definition HUMIDIFIER_THRESHOLD_STEPS :: byte where
  "HUMIDIFIER_THRESHOLD_STEPS = 2"

definition HUMIDIFIER_THRESHOLD_MININUM :: byte where
  "HUMIDIFIER_THRESHOLD_MININUM = 60"

definition EEPROM_MAGIC_NUMBER :: "16 word" where
  "EEPROM_MAGIC_NUMBER = 0xBABE"

text \<open>
  The enumeration \<^verbatim>\<open>DisplayMode\<close>; its members carry the suffix \<open>_mode\<close> because
  \<^verbatim>\<open>min\<close>, \<^verbatim>\<open>max\<close> and the configuration's field names are taken. The last member
  \<^verbatim>\<open>END\<close> is only the modulus of the mode cycle and is the number 6 below.
\<close>

datatype DisplayMode =
    live_mode
  | min_mode
  | max_mode
  | humidifierEnabled_mode
  | humidifierLowerOnThreshold_mode
  | humidifierUpperOffThreshold_mode

fun mode_index :: "DisplayMode \<Rightarrow> nat" where
  "mode_index live_mode = 0"
| "mode_index min_mode = 1"
| "mode_index max_mode = 2"
| "mode_index humidifierEnabled_mode = 3"
| "mode_index humidifierLowerOnThreshold_mode = 4"
| "mode_index humidifierUpperOffThreshold_mode = 5"

definition END :: nat where
  "END = 6"

text \<open>
  The cast back from a number. The sketch only casts \<^verbatim>\<open>(currentMode + 1) % END\<close>, a
  number below 6, so the last branch is taken for 5 only.
\<close>

definition mode_of_index :: "nat \<Rightarrow> DisplayMode" where
  "mode_of_index n =
     (if n = 0 then live_mode
      else if n = 1 then min_mode
      else if n = 2 then max_mode
      else if n = 3 then humidifierEnabled_mode
      else if n = 4 then humidifierLowerOnThreshold_mode
      else humidifierUpperOffThreshold_mode)"

record PersistentConfiguration =
  magicNumber :: "16 word"
  humidifierLowerOnThreshold :: byte
  humidifierUpperOffThreshold :: byte
  humidifierEnabled :: bool

text \<open>The record built by \<^verbatim>\<open>PersistentConfiguration()\<close>: the default member initialisers.\<close>

definition default_PersistentConfiguration :: PersistentConfiguration where
  "default_PersistentConfiguration =
     \<lparr>magicNumber = EEPROM_MAGIC_NUMBER,
      humidifierLowerOnThreshold = 80,
      humidifierUpperOffThreshold = 96,
      humidifierEnabled = True\<rparr>"

record DisplayData =
  temperature :: int
  humidity :: int

text \<open>
  The display driver, the relay pin, the EEPROM and the serial line are outside the
  sketch. The model records what the sketch sends to them: the driver calls in the order
  they are made, the levels written to the relay pin, the lines printed, and the
  configuration record held at EEPROM address 0.
\<close>

datatype DisplayCmd =
    Write nat byte nat
  | PrintDigit int nat nat
  | SetBright byte
  | DisplayOn nat

record Globals =
  persistentConfiguration :: PersistentConfiguration
  humidifierOn :: bool
  currentMode :: DisplayMode
  modeSelectedTime :: ulong
  liveData :: DisplayData
  maxData :: DisplayData
  minData :: DisplayData
  brightness :: byte
  hasInitializedMinMax :: bool
  nextSensorSampling :: ulong
  clock :: ulong
  eeprom :: PersistentConfiguration
  display :: "DisplayCmd list"
  relayWrites :: "bool list"
  serial :: "string list"

text \<open>
  The globals at power-on, for a given EEPROM content: the statics are zero-initialised,
  \<^verbatim>\<open>persistentConfiguration\<close> holds its default member initialisers.
\<close>

definition boot :: "PersistentConfiguration \<Rightarrow> Globals" where
  "boot stored =
     \<lparr>persistentConfiguration = default_PersistentConfiguration,
      humidifierOn = False,
      currentMode = live_mode,
      modeSelectedTime = 0,
      liveData = \<lparr>temperature = 0, humidity = 0\<rparr>,
      maxData = \<lparr>temperature = 0, humidity = 0\<rparr>,
      minData = \<lparr>temperature = 0, humidity = 0\<rparr>,
      brightness = 0,
      hasInitializedMinMax = False,
      nextSensorSampling = 0,
      clock = 0,
      eeprom = stored,
      display = [],
      relayWrites = [],
      serial = []\<rparr>"

section \<open>The collaborators' calls\<close>

definition display_write :: "nat \<Rightarrow> byte \<Rightarrow> nat \<Rightarrow> Globals \<Rightarrow> Globals" where
  "display_write pos segs chip s = s\<lparr>display := display s @ [Write pos segs chip]\<rparr>"

definition display_printDigit :: "int \<Rightarrow> nat \<Rightarrow> nat \<Rightarrow> Globals \<Rightarrow> Globals" where
  "display_printDigit number chip digit s =
     s\<lparr>display := display s @ [PrintDigit number chip digit]\<rparr>"

definition display_setBright :: "byte \<Rightarrow> Globals \<Rightarrow> Globals" where
  "display_setBright b s = s\<lparr>display := display s @ [SetBright b]\<rparr>"

definition display_on :: "nat \<Rightarrow> Globals \<Rightarrow> Globals" where
  "display_on chip s = s\<lparr>display := display s @ [DisplayOn chip]\<rparr>"

definition digitalWrite_relay :: "bool \<Rightarrow> Globals \<Rightarrow> Globals" where
  "digitalWrite_relay level s = s\<lparr>relayWrites := relayWrites s @ [level]\<rparr>"

definition EEPROM_put :: "PersistentConfiguration \<Rightarrow> Globals \<Rightarrow> Globals" where
  "EEPROM_put c s = s\<lparr>eeprom := c\<rparr>"

definition EEPROM_get :: "Globals \<Rightarrow> Globals" where
  "EEPROM_get s = s\<lparr>persistentConfiguration := eeprom s\<rparr>"

definition Serial_println :: "string \<Rightarrow> Globals \<Rightarrow> Globals" where
  "Serial_println line s = s\<lparr>serial := serial s @ [line]\<rparr>"

definition millis :: "Globals \<Rightarrow> ulong" where
  "millis s = clock s"

definition delay :: "ulong \<Rightarrow> Globals \<Rightarrow> Globals" where
  "delay ms s = s\<lparr>clock := clock s + ms\<rparr>"

text \<open>
  What the display was last told to show at a position by \<^verbatim>\<open>write\<close>: the segment mask
  of the latest \<open>Write\<close> to it (the commands are in the order they were sent, so a later
  command in the list wins).
\<close>

fun lastWritten :: "DisplayCmd list \<Rightarrow> nat \<Rightarrow> byte option" where
  "lastWritten [] pos = None"
| "lastWritten (c # cs) pos =
     (case lastWritten cs pos of
        Some m \<Rightarrow> Some m
      | None \<Rightarrow> (case c of Write q m chip \<Rightarrow> (if q = pos then Some m else None) | _ \<Rightarrow> None))"

section \<open>Display data printing methods\<close>

definition getBlinkStatus :: "Globals \<Rightarrow> bool" where
  "getBlinkStatus s = ((millis s - modeSelectedTime s) mod 1000 > 500)"

definition printBooleanConfigurationStatus :: "bool \<Rightarrow> Globals \<Rightarrow> Globals" where
  "printBooleanConfigurationStatus status s =
     (if status then
        display_write 1 0x00 0 (display_write 2 0x15 0 (display_write 3 0x7E 0
          (display_write 4 0x00 0 s)))
      else
        display_write 1 0x47 0 (display_write 2 0x47 0 (display_write 3 0x7E 0
          (display_write 4 0x00 0 s))))"

definition printHumidifierConfigPrefix :: "Globals \<Rightarrow> Globals" where
  "printHumidifierConfigPrefix s =
     display_write 5 0x06 0 (display_write 6 0x47 0 (display_write 7 0x3E 0
       (display_write 8 0x37 0 s)))"

definition printTwoDigitValue :: "int \<Rightarrow> nat \<Rightarrow> Globals \<Rightarrow> Globals" where
  "printTwoDigitValue v digit s =
     (if v < 10 then
        display_printDigit v DISPLAY_NCHIP digit (display_write (digit + 2) 0 0 s)
      else if v > 99 then
        display_printDigit 99 DISPLAY_NCHIP digit s
      else
        display_printDigit v DISPLAY_NCHIP digit s)"

definition printHumidifierConfigValueWithBlinking :: "byte \<Rightarrow> byte \<Rightarrow> Globals \<Rightarrow> Globals" where
  "printHumidifierConfigValueWithBlinking v blinkByte s =
     printTwoDigitValue (uint v) 2
       (if getBlinkStatus s then
          display_write 1 0x37 0 (display_write 2 0x05 0 s)
        else
          display_write 1 blinkByte 0 (display_write 2 blinkByte 0 s))"

definition printCelsiusAndRelHumiditySigns :: "Globals \<Rightarrow> Globals" where
  "printCelsiusAndRelHumiditySigns s =
     display_write 1 0x37 0 (display_write 2 0x05 0 (display_write 5 0x4E 0
       (display_write 6 0x63 0 s)))"

definition printTempHumidityMaximumSigns :: "Globals \<Rightarrow> Globals" where
  "printTempHumidityMaximumSigns s =
     display_write 1 0x40 0 (display_write 2 0x40 0 (display_write 5 0x40 0
       (display_write 6 0x40 0 s)))"

definition printTempHumidityMinimumSigns :: "Globals \<Rightarrow> Globals" where
  "printTempHumidityMinimumSigns s =
     display_write 1 0x08 0 (display_write 2 0x08 0 (display_write 5 0x08 0
       (display_write 6 0x08 0 s)))"

text \<open>The function pointer \<^verbatim>\<open>signsFunction\<close> is an option: \<open>None\<close> is \<^verbatim>\<open>NULL\<close>.\<close>

definition printTempAndHumidityOverview ::
  "DisplayData \<Rightarrow> (Globals \<Rightarrow> Globals) option \<Rightarrow> Globals \<Rightarrow> Globals" where
  "printTempAndHumidityOverview d signsFunction s =
     printTwoDigitValue (humidity d) 2
       (printTwoDigitValue (temperature d) 6
          (if getBlinkStatus s \<or> signsFunction = None then printCelsiusAndRelHumiditySigns s
           else (case signsFunction of Some f \<Rightarrow> f s | None \<Rightarrow> s)))"

definition updateDisplay :: "Globals \<Rightarrow> Globals" where
  "updateDisplay s =
     (case currentMode s of
        live_mode \<Rightarrow> printTempAndHumidityOverview (liveData s) None s
      | min_mode \<Rightarrow>
          printTempAndHumidityOverview (minData s) (Some printTempHumidityMinimumSigns) s
      | max_mode \<Rightarrow>
          printTempAndHumidityOverview (maxData s) (Some printTempHumidityMaximumSigns) s
      | humidifierEnabled_mode \<Rightarrow>
          printBooleanConfigurationStatus (humidifierEnabled (persistentConfiguration s))
            (printHumidifierConfigPrefix s)
      | humidifierLowerOnThreshold_mode \<Rightarrow>
          printHumidifierConfigValueWithBlinking
            (humidifierLowerOnThreshold (persistentConfiguration s)) 0x08
            (printHumidifierConfigPrefix s)
      | humidifierUpperOffThreshold_mode \<Rightarrow>
          printHumidifierConfigValueWithBlinking
            (humidifierUpperOffThreshold (persistentConfiguration s)) 0x40
            (printHumidifierConfigPrefix s))"

text \<open>
  The reset animation: six frames, each lighting one segment (\<^verbatim>\<open>1 << activeSegment[i]\<close>)
  at the positions 3, 4, 7 and 8 and then waiting 50 ms.
\<close>

definition RESET_ANIMATION_MAX :: "nat list" where
  "RESET_ANIMATION_MAX = [6, 1, 2, 3, 4, 5]"

definition RESET_ANIMATION_MIN :: "nat list" where
  "RESET_ANIMATION_MIN = [3, 4, 5, 6, 1, 2]"

definition resetAnimationFrame :: "nat \<Rightarrow> Globals \<Rightarrow> Globals" where
  "resetAnimationFrame seg s =
     delay 50 (display_write 8 (push_bit seg 1) 0 (display_write 7 (push_bit seg 1) 0
       (display_write 4 (push_bit seg 1) 0 (display_write 3 (push_bit seg 1) 0 s))))"

fun presentResetAnimationWithSegments :: "nat list \<Rightarrow> Globals \<Rightarrow> Globals" where
  "presentResetAnimationWithSegments [] s = s"
| "presentResetAnimationWithSegments (seg # segs) s =
     presentResetAnimationWithSegments segs (resetAnimationFrame seg s)"

definition presentResetAnimation :: "Globals \<Rightarrow> Globals" where
  "presentResetAnimation s =
     (if currentMode s = min_mode then presentResetAnimationWithSegments RESET_ANIMATION_MIN s
      else if currentMode s = max_mode then
        presentResetAnimationWithSegments RESET_ANIMATION_MAX s
      else s)"

section \<open>Button handlers\<close>

definition onActionButton :: "Globals \<Rightarrow> Globals" where
  "onActionButton s =
     updateDisplay
       (case currentMode s of
          live_mode \<Rightarrow>
            (let b = (if brightness s = 0 then 8 else 0)
             in display_setBright b (s\<lparr>brightness := b\<rparr>))
        | max_mode \<Rightarrow> presentResetAnimation (updateDisplay (s\<lparr>maxData := liveData s\<rparr>))
        | min_mode \<Rightarrow> presentResetAnimation (updateDisplay (s\<lparr>minData := liveData s\<rparr>))
        | humidifierEnabled_mode \<Rightarrow>
            (let c = persistentConfiguration s;
                 c' = c\<lparr>humidifierEnabled := \<not> humidifierEnabled c\<rparr>
             in EEPROM_put c' (s\<lparr>persistentConfiguration := c'\<rparr>))
        | humidifierLowerOnThreshold_mode \<Rightarrow>
            (let c = persistentConfiguration s;
                 c1 = c\<lparr>humidifierLowerOnThreshold :=
                          humidifierLowerOnThreshold c + HUMIDIFIER_THRESHOLD_STEPS\<rparr>;
                 c2 = (if humidifierLowerOnThreshold c1 \<ge> humidifierUpperOffThreshold c1
                       then c1\<lparr>humidifierLowerOnThreshold := HUMIDIFIER_THRESHOLD_MININUM\<rparr>
                       else c1)
             in EEPROM_put c2 (s\<lparr>persistentConfiguration := c2\<rparr>))
        | humidifierUpperOffThreshold_mode \<Rightarrow>
            (let c = persistentConfiguration s;
                 c1 = c\<lparr>humidifierUpperOffThreshold :=
                          humidifierUpperOffThreshold c + HUMIDIFIER_THRESHOLD_STEPS\<rparr>;
                 c2 = (if humidifierUpperOffThreshold c1 > 100 - HUMIDIFIER_THRESHOLD_STEPS
                       then c1\<lparr>humidifierUpperOffThreshold :=
                                 humidifierLowerOnThreshold c1 + HUMIDIFIER_THRESHOLD_STEPS\<rparr>
                       else c1)
             in EEPROM_put c2 (s\<lparr>persistentConfiguration := c2\<rparr>)))"

definition onNextModeButton :: "Globals \<Rightarrow> Globals" where
  "onNextModeButton s =
     updateDisplay
       (s\<lparr>currentMode := mode_of_index ((mode_index (currentMode s) + 1) mod END),
          modeSelectedTime := millis s\<rparr>)"

section \<open>Updating data\<close>

definition updateRelayStatus :: "Globals \<Rightarrow> Globals" where
  "updateRelayStatus s =
     (let c = persistentConfiguration s;
          s1 = (if \<not> humidifierOn s \<and> humidity (liveData s) \<le> uint (humidifierLowerOnThreshold c)
                then s\<lparr>humidifierOn := True\<rparr>
                else if humidifierOn s
                        \<and> humidity (liveData s) \<ge> uint (humidifierUpperOffThreshold c)
                then s\<lparr>humidifierOn := False\<rparr>
                else s)
      in digitalWrite_relay (\<not> (humidifierOn s1 \<and> humidifierEnabled c)) s1)"

text \<open>
  \<^verbatim>\<open>updateSensorData\<close> takes the two sensor values after \<^verbatim>\<open>round\<close> and the
  conversion to \<^verbatim>\<open>int\<close>, as integers; the 16-bit values are among them.
\<close>

definition updateSensorData :: "int \<Rightarrow> int \<Rightarrow> Globals \<Rightarrow> Globals" where
  "updateSensorData t h s =
     (let s1 = s\<lparr>liveData := \<lparr>temperature = t, humidity = h\<rparr>\<rparr>;
          s2 = (if hasInitializedMinMax s1 = False
                then s1\<lparr>minData := liveData s1, maxData := liveData s1,
                        hasInitializedMinMax := True\<rparr>
                else s1);
          s3 = (if temperature (liveData s2) < temperature (minData s2)
                then s2\<lparr>minData := (minData s2)\<lparr>temperature := temperature (liveData s2)\<rparr>\<rparr>
                else s2);
          s4 = (if temperature (liveData s3) > temperature (maxData s3)
                then s3\<lparr>maxData := (maxData s3)\<lparr>temperature := temperature (liveData s3)\<rparr>\<rparr>
                else s3);
          s5 = (if humidity (liveData s4) < humidity (minData s4)
                then s4\<lparr>minData := (minData s4)\<lparr>humidity := humidity (liveData s4)\<rparr>\<rparr>
                else s4);
          s6 = (if humidity (liveData s5) > humidity (maxData s5)
                then s5\<lparr>maxData := (maxData s5)\<lparr>humidity := humidity (liveData s5)\<rparr>\<rparr>
                else s5)
      in s6)"

section \<open>Arduino methods\<close>

text \<open>
  \<^verbatim>\<open>setup()\<close>, named \<open>setup_sketch\<close> here. Opening the serial line, setting the pin
  mode, setting up the sensor and registering the two button callbacks change none of the
  globals and send nothing to the display, the relay pin or the EEPROM; they are left out.
\<close>

definition setup_sketch :: "Globals \<Rightarrow> Globals" where
  "setup_sketch s =
     (let s1 = EEPROM_get s;
          s2 = (if magicNumber (persistentConfiguration s1) \<noteq> EEPROM_MAGIC_NUMBER
                then Serial_println ''Initialized EEPROM default config''
                       (EEPROM_get (EEPROM_put default_PersistentConfiguration s1))
                else Serial_println ''Loaded config from EEPROM'' s1)
      in display_on DISPLAY_NCHIP s2)"

text \<open>
  One pass of \<^verbatim>\<open>loop\<close>. Its inputs are what the collaborators deliver in this pass: the
  time that went by since the last pass, whether each debounced button fires its
  callback, the rounded sensor values and the sensor's minimum sampling period.
\<close>

record LoopInput =
  elapsed :: ulong
  actionFired :: bool
  nextModeFired :: bool
  sensorTemperature :: int
  sensorHumidity :: int
  minimumSamplingPeriod :: ulong

definition loop :: "LoopInput \<Rightarrow> Globals \<Rightarrow> Globals" where
  "loop inp s =
     (let s0 = delay 2 (delay (elapsed inp) s);
          now = millis s0;
          s1 = (if actionFired inp then onActionButton s0 else s0);
          s2 = (if nextModeFired inp then onNextModeButton s1 else s1);
          s3 = (if now > nextSensorSampling s2
                then updateRelayStatus
                       (updateSensorData (sensorTemperature inp) (sensorHumidity inp)
                          (s2\<lparr>nextSensorSampling := now + minimumSamplingPeriod inp\<rparr>))
                else s2)
      in updateDisplay s3)"

section \<open>Runs of the sketch\<close>

text \<open>
  A sampling tick of \<^verbatim>\<open>loop\<close> calls \<^verbatim>\<open>updateSensorData\<close> and then
  \<^verbatim>\<open>updateRelayStatus\<close>; \<open>sampleAll\<close> does so for a list of rounded readings
  (temperature, humidity), the oldest first.
\<close>

fun sampleAll :: "(int \<times> int) list \<Rightarrow> Globals \<Rightarrow> Globals" where
  "sampleAll [] s = s"
| "sampleAll ((t, h) # rs) s = sampleAll rs (updateRelayStatus (updateSensorData t h s))"

text \<open>The passes of \<^verbatim>\<open>loop\<close> for a list of inputs, the oldest first.\<close>

fun runLoop :: "LoopInput list \<Rightarrow> Globals \<Rightarrow> Globals" where
  "runLoop [] s = s"
| "runLoop (inp # inps) s = runLoop inps (loop inp s)"

text \<open>
  The action button pressed once in each of the listed modes in turn: a sequence of
  presses with the mode selected freely before each one.
\<close>

fun pressActionIn :: "DisplayMode list \<Rightarrow> Globals \<Rightarrow> Globals" where
  "pressActionIn [] s = s"
| "pressActionIn (m # ms) s = pressActionIn ms (onActionButton (s\<lparr>currentMode := m\<rparr>))"

text \<open>
  The thresholds the sketch can reach from its defaults: both even, the lower one from
  60 on, the upper one up to 98, the lower one below the upper one.
\<close>

definition thresholdsReachable :: "PersistentConfiguration \<Rightarrow> bool" where
  "thresholdsReachable c =
     (60 \<le> humidifierLowerOnThreshold c
      \<and> humidifierLowerOnThreshold c < humidifierUpperOffThreshold c
      \<and> humidifierUpperOffThreshold c \<le> 98
      \<and> even (unat (humidifierLowerOnThreshold c))
      \<and> even (unat (humidifierUpperOffThreshold c)))"

text \<open>The bounds on the thresholds as the specification words them.\<close>

definition thresholdsWithinBounds :: "PersistentConfiguration \<Rightarrow> bool" where
  "thresholdsWithinBounds c =
     (60 \<le> unat (humidifierLowerOnThreshold c) \<and> unat (humidifierLowerOnThreshold c) \<le> 100
      \<and> 60 \<le> unat (humidifierUpperOffThreshold c) \<and> unat (humidifierUpperOffThreshold c) \<le> 100
      \<and> unat (humidifierLowerOnThreshold c) < unat (humidifierUpperOffThreshold c))"

section \<open>What each function leaves alone\<close>

lemmas display_cmd_defs =
  display_write_def display_printDigit_def display_setBright_def display_on_def

lemmas print_defs =
  printBooleanConfigurationStatus_def printHumidifierConfigPrefix_def
  printTwoDigitValue_def printHumidifierConfigValueWithBlinking_def
  printCelsiusAndRelHumiditySigns_def printTempHumidityMaximumSigns_def
  printTempHumidityMinimumSigns_def printTempAndHumidityOverview_def

lemma getBlinkStatus_display [simp]: "getBlinkStatus (s\<lparr>display := d\<rparr>) = getBlinkStatus s"
  by (simp add: getBlinkStatus_def millis_def)

lemma updateDisplay_frame: "updateDisplay s = s\<lparr>display := display (updateDisplay s)\<rparr>"
  by (cases "currentMode s") (simp_all add: updateDisplay_def print_defs display_cmd_defs)

lemma updateDisplay_fields [simp]:
  "relayWrites (updateDisplay s) = relayWrites s"
  "humidifierOn (updateDisplay s) = humidifierOn s"
  "persistentConfiguration (updateDisplay s) = persistentConfiguration s"
  "eeprom (updateDisplay s) = eeprom s"
  "currentMode (updateDisplay s) = currentMode s"
  "nextSensorSampling (updateDisplay s) = nextSensorSampling s"
  "clock (updateDisplay s) = clock s"
  "modeSelectedTime (updateDisplay s) = modeSelectedTime s"
  "liveData (updateDisplay s) = liveData s"
  "minData (updateDisplay s) = minData s"
  "maxData (updateDisplay s) = maxData s"
  by (subst updateDisplay_frame, simp)+

lemma resetAnimationFrame_frame:
  "\<exists>d c. resetAnimationFrame seg s = s\<lparr>display := d, clock := c\<rparr>"
  by (simp add: resetAnimationFrame_def delay_def display_cmd_defs) blast

lemma presentResetAnimationWithSegments_frame:
  "\<exists>d c. presentResetAnimationWithSegments segs s = s\<lparr>display := d, clock := c\<rparr>"
proof (induction segs arbitrary: s)
  case Nil
  have "s = s\<lparr>display := display s, clock := clock s\<rparr>" by simp
  then show ?case by (metis presentResetAnimationWithSegments.simps(1))
next
  case (Cons seg segs)
  obtain d1 c1 where f: "resetAnimationFrame seg s = s\<lparr>display := d1, clock := c1\<rparr>"
    using resetAnimationFrame_frame by blast
  obtain d2 c2 where g:
    "presentResetAnimationWithSegments segs (s\<lparr>display := d1, clock := c1\<rparr>)
       = s\<lparr>display := d1, clock := c1\<rparr>\<lparr>display := d2, clock := c2\<rparr>"
    using Cons.IH by blast
  have "presentResetAnimationWithSegments (seg # segs) s = s\<lparr>display := d2, clock := c2\<rparr>"
    by (simp add: f g)
  then show ?case by blast
qed

lemma presentResetAnimation_frame:
  "\<exists>d c. presentResetAnimation s = s\<lparr>display := d, clock := c\<rparr>"
proof -
  have "s = s\<lparr>display := display s, clock := clock s\<rparr>" by simp
  then show ?thesis
    unfolding presentResetAnimation_def using presentResetAnimationWithSegments_frame by metis
qed

lemma presentResetAnimation_fields [simp]:
  "relayWrites (presentResetAnimation s) = relayWrites s"
  "humidifierOn (presentResetAnimation s) = humidifierOn s"
  "persistentConfiguration (presentResetAnimation s) = persistentConfiguration s"
  "eeprom (presentResetAnimation s) = eeprom s"
  "currentMode (presentResetAnimation s) = currentMode s"
  "nextSensorSampling (presentResetAnimation s) = nextSensorSampling s"
  "modeSelectedTime (presentResetAnimation s) = modeSelectedTime s"
proof -
  obtain d c where f: "presentResetAnimation s = s\<lparr>display := d, clock := c\<rparr>"
    using presentResetAnimation_frame by blast
  show "relayWrites (presentResetAnimation s) = relayWrites s"
    "humidifierOn (presentResetAnimation s) = humidifierOn s"
    "persistentConfiguration (presentResetAnimation s) = persistentConfiguration s"
    "eeprom (presentResetAnimation s) = eeprom s"
    "currentMode (presentResetAnimation s) = currentMode s"
    "nextSensorSampling (presentResetAnimation s) = nextSensorSampling s"
    "modeSelectedTime (presentResetAnimation s) = modeSelectedTime s"
    by (simp_all add: f)
qed

lemma onActionButton_fields [simp]:
  "relayWrites (onActionButton s) = relayWrites s"
  "humidifierOn (onActionButton s) = humidifierOn s"
  "currentMode (onActionButton s) = currentMode s"
  "nextSensorSampling (onActionButton s) = nextSensorSampling s"
  "modeSelectedTime (onActionButton s) = modeSelectedTime s"
  by (cases "currentMode s";
      simp add: onActionButton_def Let_def EEPROM_put_def display_setBright_def)+

lemma onNextModeButton_fields [simp]:
  "relayWrites (onNextModeButton s) = relayWrites s"
  "humidifierOn (onNextModeButton s) = humidifierOn s"
  "persistentConfiguration (onNextModeButton s) = persistentConfiguration s"
  "eeprom (onNextModeButton s) = eeprom s"
  "nextSensorSampling (onNextModeButton s) = nextSensorSampling s"
  by (simp_all add: onNextModeButton_def)

lemma updateSensorData_fields [simp]:
  "relayWrites (updateSensorData t h s) = relayWrites s"
  "humidifierOn (updateSensorData t h s) = humidifierOn s"
  "persistentConfiguration (updateSensorData t h s) = persistentConfiguration s"
  "eeprom (updateSensorData t h s) = eeprom s"
  "liveData (updateSensorData t h s) = \<lparr>temperature = t, humidity = h\<rparr>"
  by (simp_all add: updateSensorData_def Let_def)

lemma updateRelayStatus_fields [simp]:
  "persistentConfiguration (updateRelayStatus s) = persistentConfiguration s"
  "eeprom (updateRelayStatus s) = eeprom s"
  "liveData (updateRelayStatus s) = liveData s"
  "minData (updateRelayStatus s) = minData s"
  "maxData (updateRelayStatus s) = maxData s"
  by (simp_all add: updateRelayStatus_def Let_def digitalWrite_relay_def)

lemma sampleAll_snoc:
  "sampleAll (rs @ [(t, h)]) s = updateRelayStatus (updateSensorData t h (sampleAll rs s))"
  by (induction rs s rule: sampleAll.induct) simp_all

section \<open>The sensor sample tracker\<close>

text \<open>
  Claim C5. After every call of \<^verbatim>\<open>updateSensorData\<close>, whatever the globals were before
  it (so also at the very first call, when the extrema are not yet initialised, and after
  a manual reset), the minimum is at most the live value and the live value at most the
  maximum, for temperature and for humidity. The second half says the same along a run
  of sampling ticks from power-on, after the last reading of every non-empty sequence.
\<close>

theorem updateSensorData_extrema_bracket_live:
  "(temperature (minData (updateSensorData t h s)) \<le> temperature (liveData (updateSensorData t h s))
    \<and> temperature (liveData (updateSensorData t h s)) \<le> temperature (maxData (updateSensorData t h s))
    \<and> humidity (minData (updateSensorData t h s)) \<le> humidity (liveData (updateSensorData t h s))
    \<and> humidity (liveData (updateSensorData t h s)) \<le> humidity (maxData (updateSensorData t h s)))
   \<and> (temperature (minData (sampleAll (rs @ [(t, h)]) (boot stored)))
         \<le> temperature (liveData (sampleAll (rs @ [(t, h)]) (boot stored)))
    \<and> temperature (liveData (sampleAll (rs @ [(t, h)]) (boot stored)))
         \<le> temperature (maxData (sampleAll (rs @ [(t, h)]) (boot stored)))
    \<and> humidity (minData (sampleAll (rs @ [(t, h)]) (boot stored)))
         \<le> humidity (liveData (sampleAll (rs @ [(t, h)]) (boot stored)))
    \<and> humidity (liveData (sampleAll (rs @ [(t, h)]) (boot stored)))
         \<le> humidity (maxData (sampleAll (rs @ [(t, h)]) (boot stored))))"
proof -
  have one: "temperature (minData (updateSensorData t h s')) \<le> temperature (liveData (updateSensorData t h s'))
    \<and> temperature (liveData (updateSensorData t h s')) \<le> temperature (maxData (updateSensorData t h s'))
    \<and> humidity (minData (updateSensorData t h s')) \<le> humidity (liveData (updateSensorData t h s'))
    \<and> humidity (liveData (updateSensorData t h s')) \<le> humidity (maxData (updateSensorData t h s'))"
    for s'
    by (simp add: updateSensorData_def Let_def)
  show ?thesis
    using one [of s] one [of "sampleAll rs (boot stored)"]
    by (simp only: sampleAll_snoc updateRelayStatus_fields)
qed

section \<open>The configuration store\<close>

text \<open>
  Claim C9. If the record in the EEPROM has a magic number other than the sentinel when
  \<^verbatim>\<open>setup\<close> runs, the sketch writes the all-defaults record (enabled, lower 80, upper
  96) to the EEPROM and reads it back: the active configuration and the stored record
  are the defaults, and the line for the reset is printed. Starting again from power-on
  with the EEPROM as it was left gives the same configuration, leaves the EEPROM as it
  is, and takes the branch that only loads.
\<close>

theorem setup_magic_mismatch_recovers_defaults:
  assumes "magicNumber (eeprom s) \<noteq> EEPROM_MAGIC_NUMBER"
  shows "persistentConfiguration (setup_sketch s) = default_PersistentConfiguration
    \<and> eeprom (setup_sketch s) = default_PersistentConfiguration
    \<and> serial (setup_sketch s) = serial s @ [''Initialized EEPROM default config'']
    \<and> humidifierEnabled (persistentConfiguration (setup_sketch s)) = True
    \<and> humidifierLowerOnThreshold (persistentConfiguration (setup_sketch s)) = 80
    \<and> humidifierUpperOffThreshold (persistentConfiguration (setup_sketch s)) = 96
    \<and> persistentConfiguration (setup_sketch (boot (eeprom (setup_sketch s))))
        = persistentConfiguration (setup_sketch s)
    \<and> eeprom (setup_sketch (boot (eeprom (setup_sketch s)))) = eeprom (setup_sketch s)
    \<and> serial (setup_sketch (boot (eeprom (setup_sketch s)))) = [''Loaded config from EEPROM'']"
proof -
  have first: "persistentConfiguration (setup_sketch s) = default_PersistentConfiguration"
    "eeprom (setup_sketch s) = default_PersistentConfiguration"
    "serial (setup_sketch s) = serial s @ [''Initialized EEPROM default config'']"
    using assms
    by (simp_all add: setup_sketch_def Let_def EEPROM_get_def EEPROM_put_def
        Serial_println_def display_on_def)
  have again: "persistentConfiguration (setup_sketch (boot default_PersistentConfiguration))
      = default_PersistentConfiguration"
    "eeprom (setup_sketch (boot default_PersistentConfiguration)) = default_PersistentConfiguration"
    "serial (setup_sketch (boot default_PersistentConfiguration)) = [''Loaded config from EEPROM'']"
    by (simp_all add: setup_sketch_def Let_def EEPROM_get_def EEPROM_put_def
        Serial_println_def display_on_def boot_def default_PersistentConfiguration_def)
  show ?thesis
    by (simp add: first again) (simp add: default_PersistentConfiguration_def)
qed

theorem setup_magic_mismatch_recovers_defaults_witness:
  "magicNumber (eeprom (boot \<lparr>magicNumber = 0xFFFF, humidifierLowerOnThreshold = 255,
       humidifierUpperOffThreshold = 255, humidifierEnabled = True\<rparr>)) \<noteq> EEPROM_MAGIC_NUMBER
   \<and> persistentConfiguration (setup_sketch (boot \<lparr>magicNumber = 0xFFFF,
        humidifierLowerOnThreshold = 255, humidifierUpperOffThreshold = 255,
        humidifierEnabled = True\<rparr>))
      = \<lparr>magicNumber = 0xBABE, humidifierLowerOnThreshold = 80,
         humidifierUpperOffThreshold = 96, humidifierEnabled = True\<rparr>"
proof -
  have h: "magicNumber (eeprom (boot \<lparr>magicNumber = 0xFFFF, humidifierLowerOnThreshold = 255,
       humidifierUpperOffThreshold = 255, humidifierEnabled = True\<rparr>)) \<noteq> EEPROM_MAGIC_NUMBER"
    by (simp add: boot_def EEPROM_MAGIC_NUMBER_def)
  show ?thesis
    using h setup_magic_mismatch_recovers_defaults [OF h]
    by (simp add: default_PersistentConfiguration_def EEPROM_MAGIC_NUMBER_def)
qed

section \<open>The relay controller\<close>

lemma updateRelayStatus_humidifierOn:
  "humidifierOn (updateRelayStatus s) =
     (if \<not> humidifierOn s
         \<and> humidity (liveData s) \<le> uint (humidifierLowerOnThreshold (persistentConfiguration s))
      then True
      else if humidifierOn s
         \<and> humidity (liveData s) \<ge> uint (humidifierUpperOffThreshold (persistentConfiguration s))
      then False
      else humidifierOn s)"
  by (simp add: updateRelayStatus_def Let_def digitalWrite_relay_def)

lemma sample_humidifierOn:
  "humidifierOn (updateRelayStatus (updateSensorData t h s)) =
     (if \<not> humidifierOn s \<and> h \<le> uint (humidifierLowerOnThreshold (persistentConfiguration s))
      then True
      else if humidifierOn s \<and> h \<ge> uint (humidifierUpperOffThreshold (persistentConfiguration s))
      then False
      else humidifierOn s)"
  by (simp add: updateRelayStatus_humidifierOn)

lemma sampleAll_config [simp]:
  "persistentConfiguration (sampleAll rs s) = persistentConfiguration s"
  by (induction rs s rule: sampleAll.induct) simp_all

lemma sampleAll_append: "sampleAll (xs @ ys) s = sampleAll ys (sampleAll xs s)"
  by (induction xs s rule: sampleAll.induct) simp_all

lemma sampleAll_stays_on:
  "humidifierOn s
   \<Longrightarrow> \<forall>r \<in> set rs. snd r < uint (humidifierUpperOffThreshold (persistentConfiguration s))
   \<Longrightarrow> humidifierOn (sampleAll rs s)"
proof (induction rs s rule: sampleAll.induct)
  case (1 s)
  then show ?case by simp
next
  case (2 t h rs s)
  have "humidifierOn (updateRelayStatus (updateSensorData t h s))"
    using 2 by (simp add: sample_humidifierOn)
  then show ?case using 2 by simp
qed

text \<open>
  Claim C4. \<^verbatim>\<open>updateRelayStatus\<close> is a two-threshold hysteresis on \<^verbatim>\<open>humidifierOn\<close>:
  off and live humidity at most the lower threshold turns it on; on and live humidity at
  least the upper threshold turns it off; a live humidity strictly between the two
  thresholds leaves it as it is. With lower 80, upper 95 and the relay off, the readings
  85, 80, 79 leave it off at 85, turn it on at 80 and keep it on at 79; it then stays on
  through any readings below 95 and is off after the first reading of 95 or more.
\<close>

theorem updateRelayStatus_hysteresis:
  "(\<not> humidifierOn s
      \<and> humidity (liveData s) \<le> uint (humidifierLowerOnThreshold (persistentConfiguration s))
      \<longrightarrow> humidifierOn (updateRelayStatus s))
   \<and> (humidifierOn s
      \<and> humidity (liveData s) \<ge> uint (humidifierUpperOffThreshold (persistentConfiguration s))
      \<longrightarrow> \<not> humidifierOn (updateRelayStatus s))
   \<and> (uint (humidifierLowerOnThreshold (persistentConfiguration s)) < humidity (liveData s)
      \<and> humidity (liveData s) < uint (humidifierUpperOffThreshold (persistentConfiguration s))
      \<longrightarrow> humidifierOn (updateRelayStatus s) = humidifierOn s)
   \<and> (humidifierLowerOnThreshold (persistentConfiguration s) = 80
      \<and> humidifierUpperOffThreshold (persistentConfiguration s) = 95
      \<and> \<not> humidifierOn s
      \<and> (\<forall>r \<in> set rs. snd r < 95) \<and> 95 \<le> h
      \<longrightarrow> \<not> humidifierOn (sampleAll [(t1, 85)] s)
        \<and> humidifierOn (sampleAll [(t1, 85), (t2, 80)] s)
        \<and> humidifierOn (sampleAll [(t1, 85), (t2, 80), (t3, 79)] s)
        \<and> humidifierOn (sampleAll ([(t1, 85), (t2, 80), (t3, 79)] @ rs) s)
        \<and> \<not> humidifierOn (sampleAll ([(t1, 85), (t2, 80), (t3, 79)] @ rs @ [(t4, h)]) s))"
proof (intro conjI impI)
  assume a: "humidifierLowerOnThreshold (persistentConfiguration s) = 80
      \<and> humidifierUpperOffThreshold (persistentConfiguration s) = 95
      \<and> \<not> humidifierOn s
      \<and> (\<forall>r \<in> set rs. snd r < 95) \<and> 95 \<le> h"
  let ?s3 = "sampleAll [(t1, 85), (t2, 80), (t3, 79)] s"
  show "\<not> humidifierOn (sampleAll [(t1, 85)] s)"
    using a by (simp add: sample_humidifierOn)
  show "humidifierOn (sampleAll [(t1, 85), (t2, 80)] s)"
    using a by (simp add: sample_humidifierOn)
  show on3: "humidifierOn ?s3"
    using a by (simp add: sample_humidifierOn)
  have on4: "humidifierOn (sampleAll rs ?s3)"
    by (rule sampleAll_stays_on [OF on3]) (use a in simp)
  then show "humidifierOn (sampleAll ([(t1, 85), (t2, 80), (t3, 79)] @ rs) s)"
    unfolding sampleAll_append .
  have "\<not> humidifierOn (sampleAll [(t4, h)] (sampleAll rs ?s3))"
    using on4 a by (simp add: sample_humidifierOn)
  then show "\<not> humidifierOn (sampleAll ([(t1, 85), (t2, 80), (t3, 79)] @ rs @ [(t4, h)]) s)"
    unfolding sampleAll_append .
qed (simp_all add: updateRelayStatus_humidifierOn)

theorem updateRelayStatus_hysteresis_witness:
  "humidifierOn (updateRelayStatus
      ((boot default_PersistentConfiguration)\<lparr>liveData := \<lparr>temperature = 20, humidity = 80\<rparr>\<rparr>))
   \<and> \<not> humidifierOn (updateRelayStatus
      ((boot default_PersistentConfiguration)
         \<lparr>humidifierOn := True, liveData := \<lparr>temperature = 20, humidity = 96\<rparr>\<rparr>))
   \<and> humidifierOn (updateRelayStatus
      ((boot default_PersistentConfiguration)
         \<lparr>humidifierOn := True, liveData := \<lparr>temperature = 20, humidity = 90\<rparr>\<rparr>))
   \<and> \<not> humidifierOn (sampleAll ([(20, 85), (20, 80), (20, 79)] @ [(21, 90), (21, 94)] @ [(22, 95)])
      ((boot default_PersistentConfiguration)
         \<lparr>persistentConfiguration :=
            default_PersistentConfiguration\<lparr>humidifierUpperOffThreshold := 95\<rparr>\<rparr>))"
proof -
  let ?a = "(boot default_PersistentConfiguration)\<lparr>liveData := \<lparr>temperature = 20, humidity = 80\<rparr>\<rparr>"
  let ?b = "(boot default_PersistentConfiguration)
         \<lparr>humidifierOn := True, liveData := \<lparr>temperature = 20, humidity = 96\<rparr>\<rparr>"
  let ?c = "(boot default_PersistentConfiguration)
         \<lparr>humidifierOn := True, liveData := \<lparr>temperature = 20, humidity = 90\<rparr>\<rparr>"
  let ?d = "(boot default_PersistentConfiguration)
         \<lparr>persistentConfiguration :=
            default_PersistentConfiguration\<lparr>humidifierUpperOffThreshold := 95\<rparr>\<rparr>"
  have ha: "\<not> humidifierOn ?a
      \<and> humidity (liveData ?a) \<le> uint (humidifierLowerOnThreshold (persistentConfiguration ?a))"
    by (simp add: boot_def default_PersistentConfiguration_def)
  have hb: "humidifierOn ?b
      \<and> humidity (liveData ?b) \<ge> uint (humidifierUpperOffThreshold (persistentConfiguration ?b))"
    by (simp add: boot_def default_PersistentConfiguration_def)
  have hc: "uint (humidifierLowerOnThreshold (persistentConfiguration ?c)) < humidity (liveData ?c)
      \<and> humidity (liveData ?c) < uint (humidifierUpperOffThreshold (persistentConfiguration ?c))"
    by (simp add: boot_def default_PersistentConfiguration_def)
  have on_c: "humidifierOn ?c"
    by (simp add: boot_def)
  have hd: "humidifierLowerOnThreshold (persistentConfiguration ?d) = 80
      \<and> humidifierUpperOffThreshold (persistentConfiguration ?d) = 95
      \<and> \<not> humidifierOn ?d
      \<and> (\<forall>r \<in> set [(21, 90), (21, 94)]. snd r < (95::int)) \<and> (95::int) \<le> 95"
    by (simp add: boot_def default_PersistentConfiguration_def)
  have 1: "humidifierOn (updateRelayStatus ?a)"
    by (rule updateRelayStatus_hysteresis [where s = ?a, THEN conjunct1, THEN mp, OF ha])
  have 2: "\<not> humidifierOn (updateRelayStatus ?b)"
    by (rule updateRelayStatus_hysteresis
        [where s = ?b, THEN conjunct2, THEN conjunct1, THEN mp, OF hb])
  have "humidifierOn (updateRelayStatus ?c) = humidifierOn ?c"
    by (rule updateRelayStatus_hysteresis
        [where s = ?c, THEN conjunct2, THEN conjunct2, THEN conjunct1, THEN mp, OF hc])
  then have 3: "humidifierOn (updateRelayStatus ?c)"
    using on_c by (simp only:)
  have 4: "\<not> humidifierOn
      (sampleAll ([(20, 85), (20, 80), (20, 79)] @ [(21, 90), (21, 94)] @ [(22, 95)]) ?d)"
    by (rule updateRelayStatus_hysteresis
        [where s = ?d and rs = "[(21, 90), (21, 94)]" and h = 95
           and ?t1.0 = 20 and ?t2.0 = 20 and ?t3.0 = 20 and ?t4.0 = 22,
         THEN conjunct2, THEN conjunct2, THEN conjunct2, THEN mp, OF hd,
         THEN conjunct2, THEN conjunct2, THEN conjunct2, THEN conjunct2])
  show ?thesis
    using 1 2 3 4 by (intro conjI)
qed

section \<open>The threshold settings\<close>

lemma delay_config [simp]: "persistentConfiguration (delay n s) = persistentConfiguration s"
  by (simp add: delay_def)

lemma onActionButton_config:
  "persistentConfiguration (onActionButton s) =
     (let c = persistentConfiguration s in
      case currentMode s of
        humidifierEnabled_mode \<Rightarrow> c\<lparr>humidifierEnabled := \<not> humidifierEnabled c\<rparr>
      | humidifierLowerOnThreshold_mode \<Rightarrow>
          c\<lparr>humidifierLowerOnThreshold :=
              (if humidifierLowerOnThreshold c + 2 \<ge> humidifierUpperOffThreshold c then 60
               else humidifierLowerOnThreshold c + 2)\<rparr>
      | humidifierUpperOffThreshold_mode \<Rightarrow>
          c\<lparr>humidifierUpperOffThreshold :=
              (if humidifierUpperOffThreshold c + 2 > 98 then humidifierLowerOnThreshold c + 2
               else humidifierUpperOffThreshold c + 2)\<rparr>
      | _ \<Rightarrow> c)"
  by (cases "currentMode s")
     (simp_all add: onActionButton_def Let_def EEPROM_put_def display_setBright_def
        HUMIDIFIER_THRESHOLD_STEPS_def HUMIDIFIER_THRESHOLD_MININUM_def)

lemma onActionButton_persists:
  "currentMode s = humidifierEnabled_mode \<or> currentMode s = humidifierLowerOnThreshold_mode
     \<or> currentMode s = humidifierUpperOffThreshold_mode
   \<Longrightarrow> eeprom (onActionButton s) = persistentConfiguration (onActionButton s)"
  by (auto simp add: onActionButton_def Let_def EEPROM_put_def)

lemma lower_step_reachable:
  fixes l u :: byte
  assumes "60 \<le> l" "l < u" "u \<le> 98" "even (unat l)" "even (unat u)"
  shows "60 \<le> (if l + 2 \<ge> u then 60 else l + 2) \<and> (if l + 2 \<ge> u then 60 else l + 2) < u
     \<and> even (unat (if l + 2 \<ge> u then 60 else l + 2))"
  using assms by (auto simp: word_le_nat_alt word_less_nat_alt unat_word_ariths)

lemma upper_step_reachable:
  fixes l u :: byte
  assumes "60 \<le> l" "l < u" "u \<le> 98" "even (unat l)" "even (unat u)"
  shows "l < (if u + 2 > 98 then l + 2 else u + 2) \<and> (if u + 2 > 98 then l + 2 else u + 2) \<le> 98
    \<and> even (unat (if u + 2 > 98 then l + 2 else u + 2))"
  using assms by (auto simp: word_le_nat_alt word_less_nat_alt unat_word_ariths)

lemma onActionButton_reachable:
  "thresholdsReachable (persistentConfiguration s)
     \<Longrightarrow> thresholdsReachable (persistentConfiguration (onActionButton s))"
  unfolding onActionButton_config Let_def thresholdsReachable_def
  using lower_step_reachable [of "humidifierLowerOnThreshold (persistentConfiguration s)"
          "humidifierUpperOffThreshold (persistentConfiguration s)"]
        upper_step_reachable [of "humidifierLowerOnThreshold (persistentConfiguration s)"
          "humidifierUpperOffThreshold (persistentConfiguration s)"]
  by (cases "currentMode s") simp_all

lemma loop_config:
  "persistentConfiguration (loop inp s) =
     (if actionFired inp
      then persistentConfiguration (onActionButton (delay 2 (delay (elapsed inp) s)))
      else persistentConfiguration s)"
  by (simp add: loop_def Let_def delay_def)

lemma loop_reachable:
  "thresholdsReachable (persistentConfiguration s)
     \<Longrightarrow> thresholdsReachable (persistentConfiguration (loop inp s))"
  using onActionButton_reachable [of "delay 2 (delay (elapsed inp) s)"]
  by (simp add: loop_config)

lemma runLoop_reachable:
  "thresholdsReachable (persistentConfiguration s)
     \<Longrightarrow> thresholdsReachable (persistentConfiguration (runLoop inps s))"
  by (induction inps s rule: runLoop.induct) (simp_all add: loop_reachable)

lemma pressActionIn_reachable:
  "thresholdsReachable (persistentConfiguration s)
     \<Longrightarrow> thresholdsReachable (persistentConfiguration (pressActionIn ms s))"
proof (induction ms s rule: pressActionIn.induct)
  case (1 s)
  then show ?case by simp
next
  case (2 m ms s)
  have "thresholdsReachable (persistentConfiguration (onActionButton (s\<lparr>currentMode := m\<rparr>)))"
    by (rule onActionButton_reachable) (use 2 in simp)
  then show ?case using 2 by simp
qed

lemma default_reachable: "thresholdsReachable default_PersistentConfiguration"
  by (simp add: thresholdsReachable_def default_PersistentConfiguration_def)

lemma reachable_within_bounds: "thresholdsReachable c \<Longrightarrow> thresholdsWithinBounds c"
  by (auto simp: thresholdsReachable_def thresholdsWithinBounds_def
        word_le_nat_alt word_less_nat_alt)

text \<open>
  Claim C8. From the default configuration (lower 80, upper 96), whatever the other
  globals are, after every finite sequence of action-button presses, each in any mode
  (so every sequence of increments of the lower and of the upper threshold, in any
  order), both thresholds are within 60 and 100 and the lower one is below the upper
  one. The same holds after every finite run of \<^verbatim>\<open>loop\<close> passes, whatever the buttons
  and the sensor deliver.
\<close>

theorem thresholds_within_bounds_from_defaults:
  "thresholdsWithinBounds
     (persistentConfiguration
        (pressActionIn ms (s\<lparr>persistentConfiguration := default_PersistentConfiguration\<rparr>)))
   \<and> thresholdsWithinBounds
     (persistentConfiguration
        (runLoop inps (s\<lparr>persistentConfiguration := default_PersistentConfiguration\<rparr>)))"
proof -
  have start: "thresholdsReachable
      (persistentConfiguration (s\<lparr>persistentConfiguration := default_PersistentConfiguration\<rparr>))"
    by (simp add: default_reachable)
  show ?thesis
    using pressActionIn_reachable [OF start, of ms] runLoop_reachable [OF start, of inps]
    by (simp add: reachable_within_bounds)
qed

text \<open>
  Claim C6. A press of the action button in the mode \<^verbatim>\<open>humidifierLowerOnThreshold\<close> adds
  2 to the lower threshold (a byte: the sum is taken modulo 256, and is the plain sum up
  to 253) and, when the sum reaches or exceeds the upper threshold, stores the floor 60
  instead; the upper threshold is untouched and the record is written to the EEPROM.
  From lower 98 and upper 100 the result is 60. For thresholds in the range the sketch
  configures, 60 up to 100 with the lower one below the upper one, the step and the wrap
  are those of plain numbers and the new lower threshold is at least 60 and below the
  upper threshold; the latter holds already when the upper threshold is above 60.
\<close>

theorem onActionButton_lower_threshold_step:
  "currentMode s = humidifierLowerOnThreshold_mode \<longrightarrow>
     humidifierLowerOnThreshold (persistentConfiguration (onActionButton s))
       = (if humidifierLowerOnThreshold (persistentConfiguration s) + 2
               \<ge> humidifierUpperOffThreshold (persistentConfiguration s)
          then 60 else humidifierLowerOnThreshold (persistentConfiguration s) + 2)
     \<and> humidifierUpperOffThreshold (persistentConfiguration (onActionButton s))
       = humidifierUpperOffThreshold (persistentConfiguration s)
     \<and> eeprom (onActionButton s) = persistentConfiguration (onActionButton s)
     \<and> (unat (humidifierLowerOnThreshold (persistentConfiguration s)) \<le> 253 \<longrightarrow>
          unat (humidifierLowerOnThreshold (persistentConfiguration (onActionButton s)))
            = (if unat (humidifierLowerOnThreshold (persistentConfiguration s)) + 2
                    \<ge> unat (humidifierUpperOffThreshold (persistentConfiguration s))
               then 60 else unat (humidifierLowerOnThreshold (persistentConfiguration s)) + 2))
     \<and> (humidifierLowerOnThreshold (persistentConfiguration s) = 98
          \<and> humidifierUpperOffThreshold (persistentConfiguration s) = 100 \<longrightarrow>
          humidifierLowerOnThreshold (persistentConfiguration (onActionButton s)) = 60)
     \<and> (60 < humidifierUpperOffThreshold (persistentConfiguration s) \<longrightarrow>
          humidifierLowerOnThreshold (persistentConfiguration (onActionButton s))
            < humidifierUpperOffThreshold (persistentConfiguration (onActionButton s)))
     \<and> (60 \<le> unat (humidifierLowerOnThreshold (persistentConfiguration s))
          \<and> unat (humidifierLowerOnThreshold (persistentConfiguration s))
              < unat (humidifierUpperOffThreshold (persistentConfiguration s))
          \<and> unat (humidifierUpperOffThreshold (persistentConfiguration s)) \<le> 100 \<longrightarrow>
          unat (humidifierLowerOnThreshold (persistentConfiguration (onActionButton s)))
            = (if unat (humidifierLowerOnThreshold (persistentConfiguration s)) + 2
                    \<ge> unat (humidifierUpperOffThreshold (persistentConfiguration s))
               then 60 else unat (humidifierLowerOnThreshold (persistentConfiguration s)) + 2)
          \<and> 60 \<le> unat (humidifierLowerOnThreshold (persistentConfiguration (onActionButton s)))
          \<and> unat (humidifierLowerOnThreshold (persistentConfiguration (onActionButton s)))
              < unat (humidifierUpperOffThreshold (persistentConfiguration (onActionButton s))))"
proof (intro impI)
  assume m: "currentMode s = humidifierLowerOnThreshold_mode"
  let ?l = "humidifierLowerOnThreshold (persistentConfiguration s)"
  let ?u = "humidifierUpperOffThreshold (persistentConfiguration s)"
  let ?l' = "if ?l + 2 \<ge> ?u then 60 else ?l + 2"
  have l': "humidifierLowerOnThreshold (persistentConfiguration (onActionButton s)) = ?l'"
    and u': "humidifierUpperOffThreshold (persistentConfiguration (onActionButton s)) = ?u"
    using m by (simp_all add: onActionButton_config Let_def)
  have p: "eeprom (onActionButton s) = persistentConfiguration (onActionButton s)"
    using m by (simp add: onActionButton_persists)
  have n: "unat ?l' = (if unat ?l + 2 \<ge> unat ?u then 60 else unat ?l + 2)"
    if "unat ?l \<le> 253"
    using that by (simp add: word_le_nat_alt unat_word_ariths)
  have e: "?l' = 60" if "?l = 98 \<and> ?u = 100"
    using that by simp
  have b: "?l' < ?u" if "60 < ?u"
    using that by (simp add: not_le)
  have r: "unat ?l' = (if unat ?l + 2 \<ge> unat ?u then 60 else unat ?l + 2)
      \<and> 60 \<le> unat ?l' \<and> unat ?l' < unat ?u"
    if "60 \<le> unat ?l \<and> unat ?l < unat ?u \<and> unat ?u \<le> 100"
  proof -
    have small: "unat ?l \<le> 253" using that by simp
    have eq: "unat ?l' = (if unat ?l + 2 \<ge> unat ?u then 60 else unat ?l + 2)"
      by (rule n [OF small])
    show ?thesis
      unfolding eq using that by simp
  qed
  show "humidifierLowerOnThreshold (persistentConfiguration (onActionButton s)) = ?l'
     \<and> humidifierUpperOffThreshold (persistentConfiguration (onActionButton s)) = ?u
     \<and> eeprom (onActionButton s) = persistentConfiguration (onActionButton s)
     \<and> (unat ?l \<le> 253 \<longrightarrow>
          unat (humidifierLowerOnThreshold (persistentConfiguration (onActionButton s)))
            = (if unat ?l + 2 \<ge> unat ?u then 60 else unat ?l + 2))
     \<and> (?l = 98 \<and> ?u = 100 \<longrightarrow>
          humidifierLowerOnThreshold (persistentConfiguration (onActionButton s)) = 60)
     \<and> (60 < ?u \<longrightarrow>
          humidifierLowerOnThreshold (persistentConfiguration (onActionButton s))
            < humidifierUpperOffThreshold (persistentConfiguration (onActionButton s)))
     \<and> (60 \<le> unat ?l \<and> unat ?l < unat ?u \<and> unat ?u \<le> 100 \<longrightarrow>
          unat (humidifierLowerOnThreshold (persistentConfiguration (onActionButton s)))
            = (if unat ?l + 2 \<ge> unat ?u then 60 else unat ?l + 2)
          \<and> 60 \<le> unat (humidifierLowerOnThreshold (persistentConfiguration (onActionButton s)))
          \<and> unat (humidifierLowerOnThreshold (persistentConfiguration (onActionButton s)))
              < unat (humidifierUpperOffThreshold (persistentConfiguration (onActionButton s))))"
    unfolding l' u' using p n e b r by blast
qed

theorem onActionButton_lower_threshold_step_witness:
  "humidifierLowerOnThreshold (persistentConfiguration (onActionButton
      ((boot default_PersistentConfiguration)
         \<lparr>persistentConfiguration :=
            default_PersistentConfiguration
              \<lparr>humidifierLowerOnThreshold := 98, humidifierUpperOffThreshold := 100\<rparr>,
          currentMode := humidifierLowerOnThreshold_mode\<rparr>))) = 60
   \<and> humidifierLowerOnThreshold (persistentConfiguration (onActionButton
      ((boot default_PersistentConfiguration)
         \<lparr>persistentConfiguration :=
            default_PersistentConfiguration
              \<lparr>humidifierLowerOnThreshold := 98, humidifierUpperOffThreshold := 100\<rparr>,
          currentMode := humidifierLowerOnThreshold_mode\<rparr>)))
     < humidifierUpperOffThreshold (persistentConfiguration (onActionButton
      ((boot default_PersistentConfiguration)
         \<lparr>persistentConfiguration :=
            default_PersistentConfiguration
              \<lparr>humidifierLowerOnThreshold := 98, humidifierUpperOffThreshold := 100\<rparr>,
          currentMode := humidifierLowerOnThreshold_mode\<rparr>)))
   \<and> unat (humidifierLowerOnThreshold (persistentConfiguration (onActionButton
      ((boot default_PersistentConfiguration)
         \<lparr>persistentConfiguration :=
            default_PersistentConfiguration
              \<lparr>humidifierLowerOnThreshold := 98, humidifierUpperOffThreshold := 100\<rparr>,
          currentMode := humidifierLowerOnThreshold_mode\<rparr>)))) = 60
   \<and> unat (humidifierLowerOnThreshold (persistentConfiguration (onActionButton
      ((boot default_PersistentConfiguration)
         \<lparr>currentMode := humidifierLowerOnThreshold_mode\<rparr>)))) = 82
   \<and> unat (humidifierLowerOnThreshold (persistentConfiguration (onActionButton
      ((boot default_PersistentConfiguration)
         \<lparr>currentMode := humidifierLowerOnThreshold_mode\<rparr>))))
     < unat (humidifierUpperOffThreshold (persistentConfiguration (onActionButton
      ((boot default_PersistentConfiguration)
         \<lparr>currentMode := humidifierLowerOnThreshold_mode\<rparr>))))"
proof -
  let ?s = "(boot default_PersistentConfiguration)
         \<lparr>persistentConfiguration :=
            default_PersistentConfiguration
              \<lparr>humidifierLowerOnThreshold := 98, humidifierUpperOffThreshold := 100\<rparr>,
          currentMode := humidifierLowerOnThreshold_mode\<rparr>"
  let ?d = "(boot default_PersistentConfiguration)
         \<lparr>currentMode := humidifierLowerOnThreshold_mode\<rparr>"
  have m: "currentMode ?s = humidifierLowerOnThreshold_mode" by simp
  have md: "currentMode ?d = humidifierLowerOnThreshold_mode" by simp
  have h1: "unat (humidifierLowerOnThreshold (persistentConfiguration ?s)) \<le> 253" by simp
  have h2: "humidifierLowerOnThreshold (persistentConfiguration ?s) = 98
      \<and> humidifierUpperOffThreshold (persistentConfiguration ?s) = 100" by simp
  have h3: "60 < humidifierUpperOffThreshold (persistentConfiguration ?s)" by simp
  have h4: "60 \<le> unat (humidifierLowerOnThreshold (persistentConfiguration ?d))
      \<and> unat (humidifierLowerOnThreshold (persistentConfiguration ?d))
          < unat (humidifierUpperOffThreshold (persistentConfiguration ?d))
      \<and> unat (humidifierUpperOffThreshold (persistentConfiguration ?d)) \<le> 100"
    by (simp add: boot_def default_PersistentConfiguration_def)
  note T = onActionButton_lower_threshold_step [where s = ?s, THEN mp, OF m]
  note D = onActionButton_lower_threshold_step [where s = ?d, THEN mp, OF md]
  have 1: "humidifierLowerOnThreshold (persistentConfiguration (onActionButton ?s)) = 60"
    by (rule T [THEN conjunct2, THEN conjunct2, THEN conjunct2, THEN conjunct2,
          THEN conjunct1, THEN mp, OF h2])
  have 2: "humidifierLowerOnThreshold (persistentConfiguration (onActionButton ?s))
      < humidifierUpperOffThreshold (persistentConfiguration (onActionButton ?s))"
    by (rule T [THEN conjunct2, THEN conjunct2, THEN conjunct2, THEN conjunct2,
          THEN conjunct2, THEN conjunct1, THEN mp, OF h3])
  have "unat (humidifierLowerOnThreshold (persistentConfiguration (onActionButton ?s)))
      = (if unat (humidifierLowerOnThreshold (persistentConfiguration ?s)) + 2
              \<ge> unat (humidifierUpperOffThreshold (persistentConfiguration ?s))
         then 60 else unat (humidifierLowerOnThreshold (persistentConfiguration ?s)) + 2)"
    by (rule T [THEN conjunct2, THEN conjunct2, THEN conjunct2, THEN conjunct1, THEN mp, OF h1])
  then have 3: "unat (humidifierLowerOnThreshold (persistentConfiguration (onActionButton ?s)))
      = 60"
    by simp
  note R = D [THEN conjunct2, THEN conjunct2, THEN conjunct2, THEN conjunct2,
          THEN conjunct2, THEN conjunct2, THEN mp, OF h4]
  have "unat (humidifierLowerOnThreshold (persistentConfiguration (onActionButton ?d)))
      = (if unat (humidifierLowerOnThreshold (persistentConfiguration ?d)) + 2
              \<ge> unat (humidifierUpperOffThreshold (persistentConfiguration ?d))
         then 60 else unat (humidifierLowerOnThreshold (persistentConfiguration ?d)) + 2)"
    by (rule R [THEN conjunct1])
  then have 4: "unat (humidifierLowerOnThreshold (persistentConfiguration (onActionButton ?d)))
      = 82"
    by (simp add: boot_def default_PersistentConfiguration_def)
  have 5: "unat (humidifierLowerOnThreshold (persistentConfiguration (onActionButton ?d)))
      < unat (humidifierUpperOffThreshold (persistentConfiguration (onActionButton ?d)))"
    by (rule R [THEN conjunct2, THEN conjunct2])
  show ?thesis
    using 1 2 3 4 5 by (intro conjI)
qed

text \<open>
  Claim C7. A press of the action button in the mode \<^verbatim>\<open>humidifierUpperOffThreshold\<close>
  adds 2 to the upper threshold and, when the sum exceeds 98, stores the lower threshold
  plus 2 instead; the lower threshold is untouched and the record is written to the
  EEPROM. The thresholds are bytes: the sums are taken modulo 256 and are the plain sums
  for values up to 253. From upper 98 the result is lower + 2.
\<close>

theorem onActionButton_upper_threshold_step:
  "currentMode s = humidifierUpperOffThreshold_mode \<longrightarrow>
     humidifierUpperOffThreshold (persistentConfiguration (onActionButton s))
       = (if humidifierUpperOffThreshold (persistentConfiguration s) + 2 > 98
          then humidifierLowerOnThreshold (persistentConfiguration s) + 2
          else humidifierUpperOffThreshold (persistentConfiguration s) + 2)
     \<and> humidifierLowerOnThreshold (persistentConfiguration (onActionButton s))
       = humidifierLowerOnThreshold (persistentConfiguration s)
     \<and> eeprom (onActionButton s) = persistentConfiguration (onActionButton s)
     \<and> (unat (humidifierUpperOffThreshold (persistentConfiguration s)) \<le> 253
        \<and> unat (humidifierLowerOnThreshold (persistentConfiguration s)) \<le> 253 \<longrightarrow>
          unat (humidifierUpperOffThreshold (persistentConfiguration (onActionButton s)))
            = (if unat (humidifierUpperOffThreshold (persistentConfiguration s)) + 2 > 98
               then unat (humidifierLowerOnThreshold (persistentConfiguration s)) + 2
               else unat (humidifierUpperOffThreshold (persistentConfiguration s)) + 2))
     \<and> (humidifierUpperOffThreshold (persistentConfiguration s) = 98 \<longrightarrow>
          humidifierUpperOffThreshold (persistentConfiguration (onActionButton s))
            = humidifierLowerOnThreshold (persistentConfiguration s) + 2)"
proof (intro impI)
  assume m: "currentMode s = humidifierUpperOffThreshold_mode"
  let ?l = "humidifierLowerOnThreshold (persistentConfiguration s)"
  let ?u = "humidifierUpperOffThreshold (persistentConfiguration s)"
  have u': "humidifierUpperOffThreshold (persistentConfiguration (onActionButton s))
       = (if ?u + 2 > 98 then ?l + 2 else ?u + 2)"
    and l': "humidifierLowerOnThreshold (persistentConfiguration (onActionButton s)) = ?l"
    using m by (simp_all add: onActionButton_config Let_def)
  have p: "eeprom (onActionButton s) = persistentConfiguration (onActionButton s)"
    using m by (simp add: onActionButton_persists)
  have n: "unat (if ?u + 2 > 98 then ?l + 2 else ?u + 2)
            = (if unat ?u + 2 > 98 then unat ?l + 2 else unat ?u + 2)"
    if "unat ?u \<le> 253 \<and> unat ?l \<le> 253"
    using that by (simp add: word_less_nat_alt unat_word_ariths)
  have e: "(if ?u + 2 > 98 then ?l + 2 else ?u + 2) = ?l + 2" if "?u = 98"
    using that by simp
  show "humidifierUpperOffThreshold (persistentConfiguration (onActionButton s))
       = (if ?u + 2 > 98 then ?l + 2 else ?u + 2)
     \<and> humidifierLowerOnThreshold (persistentConfiguration (onActionButton s)) = ?l
     \<and> eeprom (onActionButton s) = persistentConfiguration (onActionButton s)
     \<and> (unat ?u \<le> 253 \<and> unat ?l \<le> 253 \<longrightarrow>
          unat (humidifierUpperOffThreshold (persistentConfiguration (onActionButton s)))
            = (if unat ?u + 2 > 98 then unat ?l + 2 else unat ?u + 2))
     \<and> (?u = 98 \<longrightarrow>
          humidifierUpperOffThreshold (persistentConfiguration (onActionButton s)) = ?l + 2)"
    unfolding u' l' using p n e by blast
qed

theorem onActionButton_upper_threshold_step_witness:
  "humidifierUpperOffThreshold (persistentConfiguration (onActionButton
      ((boot default_PersistentConfiguration)
         \<lparr>persistentConfiguration :=
            default_PersistentConfiguration
              \<lparr>humidifierLowerOnThreshold := 70, humidifierUpperOffThreshold := 98\<rparr>,
          currentMode := humidifierUpperOffThreshold_mode\<rparr>))) = 72
   \<and> unat (humidifierUpperOffThreshold (persistentConfiguration (onActionButton
      ((boot default_PersistentConfiguration)
         \<lparr>persistentConfiguration :=
            default_PersistentConfiguration
              \<lparr>humidifierLowerOnThreshold := 70, humidifierUpperOffThreshold := 98\<rparr>,
          currentMode := humidifierUpperOffThreshold_mode\<rparr>)))) = 72"
proof -
  let ?s = "(boot default_PersistentConfiguration)
         \<lparr>persistentConfiguration :=
            default_PersistentConfiguration
              \<lparr>humidifierLowerOnThreshold := 70, humidifierUpperOffThreshold := 98\<rparr>,
          currentMode := humidifierUpperOffThreshold_mode\<rparr>"
  have m: "currentMode ?s = humidifierUpperOffThreshold_mode" by simp
  have h1: "unat (humidifierUpperOffThreshold (persistentConfiguration ?s)) \<le> 253
      \<and> unat (humidifierLowerOnThreshold (persistentConfiguration ?s)) \<le> 253" by simp
  have h2: "humidifierUpperOffThreshold (persistentConfiguration ?s) = 98" by simp
  note T = onActionButton_upper_threshold_step [where s = ?s, THEN mp, OF m]
  have "humidifierUpperOffThreshold (persistentConfiguration (onActionButton ?s))
      = humidifierLowerOnThreshold (persistentConfiguration ?s) + 2"
    by (rule T [THEN conjunct2, THEN conjunct2, THEN conjunct2, THEN conjunct2, THEN mp, OF h2])
  then have 1: "humidifierUpperOffThreshold (persistentConfiguration (onActionButton ?s)) = 72"
    by simp
  have "unat (humidifierUpperOffThreshold (persistentConfiguration (onActionButton ?s)))
      = (if unat (humidifierUpperOffThreshold (persistentConfiguration ?s)) + 2 > 98
         then unat (humidifierLowerOnThreshold (persistentConfiguration ?s)) + 2
         else unat (humidifierUpperOffThreshold (persistentConfiguration ?s)) + 2)"
    by (rule T [THEN conjunct2, THEN conjunct2, THEN conjunct2, THEN conjunct1, THEN mp, OF h1])
  then have 2: "unat (humidifierUpperOffThreshold (persistentConfiguration (onActionButton ?s)))
      = 72"
    by simp
  show ?thesis
    using 1 2 by (intro conjI)
qed

section \<open>The relay pin\<close>

lemma loop_relayWrites_idle:
  "\<not> (millis (delay 2 (delay (elapsed inp) s)) > nextSensorSampling s)
     \<Longrightarrow> relayWrites (loop inp s) = relayWrites s"
  by (simp add: loop_def Let_def delay_def millis_def)

lemma loop_relayWrites_sampling:
  "millis (delay 2 (delay (elapsed inp) s)) > nextSensorSampling s
     \<Longrightarrow> length (relayWrites (loop inp s)) = Suc (length (relayWrites s))"
  by (simp add: loop_def Let_def delay_def millis_def updateRelayStatus_def digitalWrite_relay_def)

lemma updateRelayStatus_relayWrites:
  "relayWrites (updateRelayStatus s) =
     relayWrites s @ [\<not> (humidifierOn (updateRelayStatus s) \<and> humidifierEnabled (persistentConfiguration s))]"
  by (simp add: updateRelayStatus_def Let_def digitalWrite_relay_def)

text \<open>
  Claim C10. The relay pin is written by \<^verbatim>\<open>updateRelayStatus\<close> only (one level per
  call), and a pass of \<^verbatim>\<open>loop\<close> calls it only when the sampling is due. The button
  handlers, the display update and \<^verbatim>\<open>updateSensorData\<close> write nothing to the pin and
  leave \<^verbatim>\<open>humidifierOn\<close> as it is: a press of the action button that toggles
  \<^verbatim>\<open>humidifierEnabled\<close> or steps a threshold changes the configuration and stores it
  in the EEPROM, and the pin keeps its level until the next sampling tick.
\<close>

theorem relay_pin_written_only_by_updateRelayStatus:
  "relayWrites (onActionButton s) = relayWrites s
   \<and> humidifierOn (onActionButton s) = humidifierOn s
   \<and> relayWrites (onNextModeButton s) = relayWrites s
   \<and> relayWrites (updateDisplay s) = relayWrites s
   \<and> relayWrites (updateSensorData t h s) = relayWrites s
   \<and> relayWrites (updateRelayStatus s)
       = relayWrites s @ [\<not> (humidifierOn (updateRelayStatus s)
                              \<and> humidifierEnabled (persistentConfiguration s))]
   \<and> (\<not> (millis (delay 2 (delay (elapsed inp) s)) > nextSensorSampling s)
        \<longrightarrow> relayWrites (loop inp s) = relayWrites s)
   \<and> (millis (delay 2 (delay (elapsed inp) s)) > nextSensorSampling s
        \<longrightarrow> length (relayWrites (loop inp s)) = Suc (length (relayWrites s)))
   \<and> (currentMode s = humidifierEnabled_mode
        \<longrightarrow> persistentConfiguration (onActionButton s)
              = (persistentConfiguration s)
                  \<lparr>humidifierEnabled := \<not> humidifierEnabled (persistentConfiguration s)\<rparr>
          \<and> eeprom (onActionButton s) = persistentConfiguration (onActionButton s))
   \<and> (currentMode s = humidifierLowerOnThreshold_mode
        \<longrightarrow> persistentConfiguration (onActionButton s)
              = (persistentConfiguration s)
                  \<lparr>humidifierLowerOnThreshold :=
                     (if humidifierLowerOnThreshold (persistentConfiguration s) + 2
                           \<ge> humidifierUpperOffThreshold (persistentConfiguration s)
                      then 60 else humidifierLowerOnThreshold (persistentConfiguration s) + 2)\<rparr>
          \<and> eeprom (onActionButton s) = persistentConfiguration (onActionButton s))
   \<and> (currentMode s = humidifierUpperOffThreshold_mode
        \<longrightarrow> persistentConfiguration (onActionButton s)
              = (persistentConfiguration s)
                  \<lparr>humidifierUpperOffThreshold :=
                     (if humidifierUpperOffThreshold (persistentConfiguration s) + 2 > 98
                      then humidifierLowerOnThreshold (persistentConfiguration s) + 2
                      else humidifierUpperOffThreshold (persistentConfiguration s) + 2)\<rparr>
          \<and> eeprom (onActionButton s) = persistentConfiguration (onActionButton s))"
proof (intro conjI impI)
  show "relayWrites (updateRelayStatus s)
       = relayWrites s @ [\<not> (humidifierOn (updateRelayStatus s)
                              \<and> humidifierEnabled (persistentConfiguration s))]"
    by (rule updateRelayStatus_relayWrites)
  show "relayWrites (loop inp s) = relayWrites s"
    if "\<not> (millis (delay 2 (delay (elapsed inp) s)) > nextSensorSampling s)"
    using that by (rule loop_relayWrites_idle)
  show "length (relayWrites (loop inp s)) = Suc (length (relayWrites s))"
    if "millis (delay 2 (delay (elapsed inp) s)) > nextSensorSampling s"
    using that by (rule loop_relayWrites_sampling)
qed (simp_all add: onActionButton_persists onActionButton_config Let_def)


theorem relay_pin_written_only_by_updateRelayStatus_witness:
  "relayWrites (loop \<lparr>elapsed = 0, actionFired = True, nextModeFired = False,
        sensorTemperature = 20, sensorHumidity = 50, minimumSamplingPeriod = 2000\<rparr>
      ((boot default_PersistentConfiguration)
         \<lparr>currentMode := humidifierEnabled_mode, nextSensorSampling := 2000\<rparr>)) = []
   \<and> humidifierEnabled (persistentConfiguration (loop \<lparr>elapsed = 0, actionFired = True,
        nextModeFired = False, sensorTemperature = 20, sensorHumidity = 50,
        minimumSamplingPeriod = 2000\<rparr>
      ((boot default_PersistentConfiguration)
         \<lparr>currentMode := humidifierEnabled_mode, nextSensorSampling := 2000\<rparr>))) = False
   \<and> length (relayWrites (loop \<lparr>elapsed = 0, actionFired = True, nextModeFired = False,
        sensorTemperature = 20, sensorHumidity = 50, minimumSamplingPeriod = 2000\<rparr>
      ((boot default_PersistentConfiguration)\<lparr>currentMode := humidifierEnabled_mode\<rparr>))) = 1
   \<and> eeprom (onActionButton
        ((boot default_PersistentConfiguration)\<lparr>currentMode := humidifierEnabled_mode\<rparr>))
      = default_PersistentConfiguration\<lparr>humidifierEnabled := False\<rparr>
   \<and> eeprom (onActionButton
        ((boot default_PersistentConfiguration)\<lparr>currentMode := humidifierLowerOnThreshold_mode\<rparr>))
      = default_PersistentConfiguration\<lparr>humidifierLowerOnThreshold := 82\<rparr>
   \<and> eeprom (onActionButton
        ((boot default_PersistentConfiguration)\<lparr>currentMode := humidifierUpperOffThreshold_mode\<rparr>))
      = default_PersistentConfiguration\<lparr>humidifierUpperOffThreshold := 98\<rparr>"
proof -
  let ?inp = "\<lparr>elapsed = 0, actionFired = True, nextModeFired = False,
        sensorTemperature = 20, sensorHumidity = 50, minimumSamplingPeriod = 2000\<rparr>"
  let ?idle = "(boot default_PersistentConfiguration)
         \<lparr>currentMode := humidifierEnabled_mode, nextSensorSampling := 2000\<rparr>"
  let ?e = "(boot default_PersistentConfiguration)\<lparr>currentMode := humidifierEnabled_mode\<rparr>"
  let ?l = "(boot default_PersistentConfiguration)\<lparr>currentMode := humidifierLowerOnThreshold_mode\<rparr>"
  let ?u = "(boot default_PersistentConfiguration)\<lparr>currentMode := humidifierUpperOffThreshold_mode\<rparr>"
  have h1: "\<not> (millis (delay 2 (delay (elapsed ?inp) ?idle)) > nextSensorSampling ?idle)"
    by (simp add: millis_def delay_def boot_def)
  have h2: "millis (delay 2 (delay (elapsed ?inp) ?e)) > nextSensorSampling ?e"
    by (simp add: millis_def delay_def boot_def)
  have h3: "currentMode ?e = humidifierEnabled_mode" by simp
  have h4: "currentMode ?l = humidifierLowerOnThreshold_mode" by simp
  have h5: "currentMode ?u = humidifierUpperOffThreshold_mode" by simp
  note T = relay_pin_written_only_by_updateRelayStatus
  have "relayWrites (loop ?inp ?idle) = relayWrites ?idle"
    by (rule T [where s = ?idle and inp = ?inp, THEN conjunct2, THEN conjunct2, THEN conjunct2,
          THEN conjunct2, THEN conjunct2, THEN conjunct2, THEN conjunct1, THEN mp, OF h1])
  then have 1: "relayWrites (loop ?inp ?idle) = []"
    by (simp add: boot_def)
  have 2: "humidifierEnabled (persistentConfiguration (loop ?inp ?idle)) = False"
    by (simp add: loop_config onActionButton_config delay_def boot_def
        default_PersistentConfiguration_def)
  have "length (relayWrites (loop ?inp ?e)) = Suc (length (relayWrites ?e))"
    by (rule T [where s = ?e and inp = ?inp, THEN conjunct2, THEN conjunct2, THEN conjunct2,
          THEN conjunct2, THEN conjunct2, THEN conjunct2, THEN conjunct2, THEN conjunct1,
          THEN mp, OF h2])
  then have 3: "length (relayWrites (loop ?inp ?e)) = 1"
    by (simp add: boot_def)
  have "eeprom (onActionButton ?e) = persistentConfiguration (onActionButton ?e)"
    by (rule T [where s = ?e, THEN conjunct2, THEN conjunct2, THEN conjunct2,
          THEN conjunct2, THEN conjunct2, THEN conjunct2, THEN conjunct2, THEN conjunct2,
          THEN conjunct1, THEN mp, OF h3, THEN conjunct2])
  then have 4: "eeprom (onActionButton ?e)
      = default_PersistentConfiguration\<lparr>humidifierEnabled := False\<rparr>"
    by (simp add: onActionButton_config boot_def default_PersistentConfiguration_def)
  have "eeprom (onActionButton ?l) = persistentConfiguration (onActionButton ?l)"
    by (rule T [where s = ?l, THEN conjunct2, THEN conjunct2, THEN conjunct2,
          THEN conjunct2, THEN conjunct2, THEN conjunct2, THEN conjunct2, THEN conjunct2,
          THEN conjunct2, THEN conjunct1, THEN mp, OF h4, THEN conjunct2])
  then have 5: "eeprom (onActionButton ?l)
      = default_PersistentConfiguration\<lparr>humidifierLowerOnThreshold := 82\<rparr>"
    by (simp add: onActionButton_config boot_def default_PersistentConfiguration_def)
  have "eeprom (onActionButton ?u) = persistentConfiguration (onActionButton ?u)"
    by (rule T [where s = ?u, THEN conjunct2, THEN conjunct2, THEN conjunct2,
          THEN conjunct2, THEN conjunct2, THEN conjunct2, THEN conjunct2, THEN conjunct2,
          THEN conjunct2, THEN conjunct2, THEN mp, OF h5, THEN conjunct2])
  then have 6: "eeprom (onActionButton ?u)
      = default_PersistentConfiguration\<lparr>humidifierUpperOffThreshold := 98\<rparr>"
    by (simp add: onActionButton_config boot_def default_PersistentConfiguration_def)
  show ?thesis
    using 1 2 3 4 5 6 by (intro conjI)
qed

section \<open>The segment renderer\<close>

lemma getBlinkStatus_unat:
  "getBlinkStatus s = (500 < unat (millis s - modeSelectedTime s) mod 1000)"
  by (simp add: getBlinkStatus_def word_less_nat_alt unat_mod)

lemma lastWritten_append:
  "lastWritten (xs @ ys) pos =
     (case lastWritten ys pos of Some m \<Rightarrow> Some m | None \<Rightarrow> lastWritten xs pos)"
  by (induction xs) (simp_all split: option.splits)

lemma display_write_display [simp]:
  "display (display_write p m c s) = display s @ [Write p m c]"
  by (simp add: display_write_def)

lemma display_printDigit_display [simp]:
  "display (display_printDigit v n d s) = display s @ [PrintDigit v n d]"
  by (simp add: display_printDigit_def)

lemma getBlinkStatus_write [simp]:
  "getBlinkStatus (display_write p m c s) = getBlinkStatus s"
  "getBlinkStatus (display_printDigit v n d s) = getBlinkStatus s"
  by (simp_all add: display_write_def display_printDigit_def)

lemma printTwoDigitValue_display:
  "display (printTwoDigitValue v digit s) =
     display s @ (if v < 10 then [Write (digit + 2) 0 0] else [])
       @ [PrintDigit (min v 99) DISPLAY_NCHIP digit]"
  by (simp add: printTwoDigitValue_def min_def)

lemma lastWritten_printTwoDigitValue:
  "pos \<noteq> digit + 2 \<Longrightarrow> lastWritten (display (printTwoDigitValue v digit s)) pos = lastWritten (display s) pos"
  by (simp add: printTwoDigitValue_def lastWritten_append)

lemma signs_min:
  "currentMode s = min_mode \<Longrightarrow>
   map (lastWritten (display (updateDisplay s))) [6, 5, 2, 1] =
     (if getBlinkStatus s then [Some 0x63, Some 0x4E, Some 0x05, Some 0x37]
      else [Some 0x08, Some 0x08, Some 0x08, Some 0x08])"
  by (simp add: updateDisplay_def printTempAndHumidityOverview_def lastWritten_printTwoDigitValue lastWritten_append
      printCelsiusAndRelHumiditySigns_def printTempHumidityMinimumSigns_def)

lemma signs_max:
  "currentMode s = max_mode \<Longrightarrow>
   map (lastWritten (display (updateDisplay s))) [6, 5, 2, 1] =
     (if getBlinkStatus s then [Some 0x63, Some 0x4E, Some 0x05, Some 0x37]
      else [Some 0x40, Some 0x40, Some 0x40, Some 0x40])"
  by (simp add: updateDisplay_def printTempAndHumidityOverview_def lastWritten_printTwoDigitValue lastWritten_append
      printCelsiusAndRelHumiditySigns_def printTempHumidityMaximumSigns_def)

lemma signs_live:
  "currentMode s = live_mode \<Longrightarrow>
   map (lastWritten (display (updateDisplay s))) [6, 5, 2, 1] =
     [Some 0x63, Some 0x4E, Some 0x05, Some 0x37]"
  by (simp add: updateDisplay_def printTempAndHumidityOverview_def lastWritten_printTwoDigitValue lastWritten_append
      printCelsiusAndRelHumiditySigns_def)

lemma getBlinkStatus_prefix [simp]:
  "getBlinkStatus (printHumidifierConfigPrefix s) = getBlinkStatus s"
  by (simp add: printHumidifierConfigPrefix_def)

lemma label_lower:
  "currentMode s = humidifierLowerOnThreshold_mode \<Longrightarrow>
   map (lastWritten (display (updateDisplay s))) [2, 1] =
     (if getBlinkStatus s then [Some 0x05, Some 0x37] else [Some 0x08, Some 0x08])"
  by (simp add: updateDisplay_def printHumidifierConfigValueWithBlinking_def
      lastWritten_printTwoDigitValue lastWritten_append)

lemma label_upper:
  "currentMode s = humidifierUpperOffThreshold_mode \<Longrightarrow>
   map (lastWritten (display (updateDisplay s))) [2, 1] =
     (if getBlinkStatus s then [Some 0x05, Some 0x37] else [Some 0x40, Some 0x40])"
  by (simp add: updateDisplay_def printHumidifierConfigValueWithBlinking_def
      lastWritten_printTwoDigitValue lastWritten_append)



text \<open>
  Claim C3, as amended. For every anchor \<^verbatim>\<open>modeSelectedTime\<close> and every render time, the
  blink status is false when the elapsed time modulo 1000 lies in 0 to 500, both
  included, and true when it lies in 501 to 999. The elapsed time is the unsigned 32-bit
  difference of the two time stamps, which is their plain difference when the anchor is
  not after the render time.
\<close>

theorem getBlinkStatus_phase:
  "getBlinkStatus (s\<lparr>clock := t, modeSelectedTime := a\<rparr>) = (500 < unat (t - a) mod 1000)
   \<and> (unat (t - a) mod 1000 \<le> 500 \<longrightarrow> \<not> getBlinkStatus (s\<lparr>clock := t, modeSelectedTime := a\<rparr>))
   \<and> (500 < unat (t - a) mod 1000 \<longrightarrow> getBlinkStatus (s\<lparr>clock := t, modeSelectedTime := a\<rparr>))
   \<and> unat (t - a) mod 1000 < 1000
   \<and> (a \<le> t \<longrightarrow> unat (t - a) = unat t - unat a)"
  by (simp add: getBlinkStatus_unat millis_def unat_sub)

theorem getBlinkStatus_phase_witness:
  "\<not> getBlinkStatus ((boot default_PersistentConfiguration)\<lparr>clock := 1250, modeSelectedTime := 1000\<rparr>)
   \<and> \<not> getBlinkStatus ((boot default_PersistentConfiguration)\<lparr>clock := 1500, modeSelectedTime := 1000\<rparr>)
   \<and> getBlinkStatus ((boot default_PersistentConfiguration)\<lparr>clock := 1501, modeSelectedTime := 1000\<rparr>)
   \<and> unat ((1501::ulong) - 1000) = 501"
proof -
  note T = getBlinkStatus_phase [where s = "boot default_PersistentConfiguration" and a = 1000]
  have h1: "unat ((1250::ulong) - 1000) mod 1000 \<le> 500" by simp
  have h2: "unat ((1500::ulong) - 1000) mod 1000 \<le> 500" by simp
  have h3: "500 < unat ((1501::ulong) - 1000) mod 1000" by simp
  have h4: "(1000::ulong) \<le> 1501" by simp
  have 1: "\<not> getBlinkStatus ((boot default_PersistentConfiguration)\<lparr>clock := 1250, modeSelectedTime := 1000\<rparr>)"
    by (rule T [where t = 1250, THEN conjunct2, THEN conjunct1, THEN mp, OF h1])
  have 2: "\<not> getBlinkStatus ((boot default_PersistentConfiguration)\<lparr>clock := 1500, modeSelectedTime := 1000\<rparr>)"
    by (rule T [where t = 1500, THEN conjunct2, THEN conjunct1, THEN mp, OF h2])
  have 3: "getBlinkStatus ((boot default_PersistentConfiguration)\<lparr>clock := 1501, modeSelectedTime := 1000\<rparr>)"
    by (rule T [where t = 1501, THEN conjunct2, THEN conjunct2, THEN conjunct1, THEN mp, OF h3])
  have "unat ((1501::ulong) - 1000) = unat (1501::ulong) - unat (1000::ulong)"
    by (rule T [where t = 1501, THEN conjunct2, THEN conjunct2, THEN conjunct2, THEN conjunct2,
          THEN mp, OF h4])
  then have 4: "unat ((1501::ulong) - 1000) = 501" by simp
  show ?thesis using 1 2 3 4 by (intro conjI)
qed

text \<open>
  The claim as it was stated fails at an elapsed time of exactly 500 ms, which it puts
  in the second half: the blink status is still false there.
\<close>

theorem getBlinkStatus_phase_counterexample:
  "unat ((1500::ulong) - 1000) mod 1000 = 500
   \<and> \<not> getBlinkStatus ((boot default_PersistentConfiguration)\<lparr>clock := 1500, modeSelectedTime := 1000\<rparr>)"
  by (simp add: getBlinkStatus_unat millis_def)

text \<open>
  Claim C2, as amended. For every integer value, \<^verbatim>\<open>printTwoDigitValue\<close> hands the driver's
  \<^verbatim>\<open>printDigit\<close> the value capped at 99 from above only: a value below 0 is passed on
  as it is. When the value is below 10 it first writes the segment mask 0 to the
  position \<^verbatim>\<open>digit + 2\<close>, the higher digit; that is the mask with no segment lit, the one
  \<^verbatim>\<open>printBooleanConfigurationStatus\<close> writes to its blank position 4, and not the mask
  \<open>0x7E\<close> of the letter O. So 7 is sent as 7 after the higher digit is cleared, 105 is
  sent as 99, and \<open>-3\<close> is sent as \<open>-3\<close>.
\<close>

theorem printTwoDigitValue_caps_at_99:
  "display (printTwoDigitValue v digit s)
     = display s @ (if v < 10 then [Write (digit + 2) 0 0] else [])
         @ [PrintDigit (min v 99) DISPLAY_NCHIP digit]
   \<and> display (printTwoDigitValue 7 digit s)
     = display s @ [Write (digit + 2) 0 0, PrintDigit 7 DISPLAY_NCHIP digit]
   \<and> display (printTwoDigitValue 105 digit s) = display s @ [PrintDigit 99 DISPLAY_NCHIP digit]
   \<and> display (printTwoDigitValue (- 3) digit s)
     = display s @ [Write (digit + 2) 0 0, PrintDigit (- 3) DISPLAY_NCHIP digit]
   \<and> lastWritten (display (printBooleanConfigurationStatus b s)) 4 = Some 0
   \<and> lastWritten (display (printBooleanConfigurationStatus b s)) 3 = Some 0x7E"
  by (simp add: printTwoDigitValue_display printBooleanConfigurationStatus_def lastWritten_append)

text \<open>
  The claim as it was stated fails at \<open>-3\<close>, which reaches the driver unclamped, and at
  7, where the higher digit gets the mask with no segment lit.
\<close>

theorem printTwoDigitValue_counterexample:
  "display (printTwoDigitValue (- 3) 2 (boot default_PersistentConfiguration))
     = [Write 4 0 0, PrintDigit (- 3) 1 2]
   \<and> display (printTwoDigitValue 7 2 (boot default_PersistentConfiguration))
     = [Write 4 0 0, PrintDigit 7 1 2]"
  by (simp add: printTwoDigitValue_display boot_def DISPLAY_NCHIP_def)

text \<open>
  Claim C1, as amended. In the modes with an alternate glyph, what \<^verbatim>\<open>updateDisplay\<close>
  writes to the sign positions depends on the blink status the other way round: while
  the elapsed time modulo 1000 is at most 500 (the blink status is false) it writes the
  marker of the mode (\<open>0x08\<close>, the bottom segment, for min and for the lower threshold;
  \<open>0x40\<close>, the top segment, for max and for the upper threshold), and while it is above
  500 it writes the normal glyphs (degree sign, C, r, H at the positions 6, 5, 2, 1 in
  min and max; r, H at the positions 2, 1 in the threshold modes).
\<close>

theorem updateDisplay_blink_glyphs:
  "(currentMode s = min_mode \<and> unat (millis s - modeSelectedTime s) mod 1000 \<le> 500 \<longrightarrow>
      map (lastWritten (display (updateDisplay s))) [6, 5, 2, 1]
        = [Some 0x08, Some 0x08, Some 0x08, Some 0x08])
   \<and> (currentMode s = min_mode \<and> 500 < unat (millis s - modeSelectedTime s) mod 1000 \<longrightarrow>
      map (lastWritten (display (updateDisplay s))) [6, 5, 2, 1]
        = [Some 0x63, Some 0x4E, Some 0x05, Some 0x37])
   \<and> (currentMode s = max_mode \<and> unat (millis s - modeSelectedTime s) mod 1000 \<le> 500 \<longrightarrow>
      map (lastWritten (display (updateDisplay s))) [6, 5, 2, 1]
        = [Some 0x40, Some 0x40, Some 0x40, Some 0x40])
   \<and> (currentMode s = max_mode \<and> 500 < unat (millis s - modeSelectedTime s) mod 1000 \<longrightarrow>
      map (lastWritten (display (updateDisplay s))) [6, 5, 2, 1]
        = [Some 0x63, Some 0x4E, Some 0x05, Some 0x37])
   \<and> (currentMode s = humidifierLowerOnThreshold_mode
        \<and> unat (millis s - modeSelectedTime s) mod 1000 \<le> 500 \<longrightarrow>
      map (lastWritten (display (updateDisplay s))) [2, 1] = [Some 0x08, Some 0x08])
   \<and> (currentMode s = humidifierLowerOnThreshold_mode
        \<and> 500 < unat (millis s - modeSelectedTime s) mod 1000 \<longrightarrow>
      map (lastWritten (display (updateDisplay s))) [2, 1] = [Some 0x05, Some 0x37])
   \<and> (currentMode s = humidifierUpperOffThreshold_mode
        \<and> unat (millis s - modeSelectedTime s) mod 1000 \<le> 500 \<longrightarrow>
      map (lastWritten (display (updateDisplay s))) [2, 1] = [Some 0x40, Some 0x40])
   \<and> (currentMode s = humidifierUpperOffThreshold_mode
        \<and> 500 < unat (millis s - modeSelectedTime s) mod 1000 \<longrightarrow>
      map (lastWritten (display (updateDisplay s))) [2, 1] = [Some 0x05, Some 0x37])"
proof -
  have off: "\<not> getBlinkStatus s" if "unat (millis s - modeSelectedTime s) mod 1000 \<le> 500"
    using that by (simp add: getBlinkStatus_unat)
  have on: "getBlinkStatus s" if "500 < unat (millis s - modeSelectedTime s) mod 1000"
    using that by (simp add: getBlinkStatus_unat)
  show ?thesis
    using off on
    by (intro conjI impI; elim conjE)
       (simp_all only: signs_min signs_max label_lower label_upper if_True if_False)
qed

theorem updateDisplay_blink_glyphs_witness:
  "map (lastWritten (display (updateDisplay
        ((boot default_PersistentConfiguration)\<lparr>currentMode := min_mode, clock := 100\<rparr>))))
      [6, 5, 2, 1] = [Some 0x08, Some 0x08, Some 0x08, Some 0x08]
   \<and> map (lastWritten (display (updateDisplay
        ((boot default_PersistentConfiguration)\<lparr>currentMode := min_mode, clock := 700\<rparr>))))
      [6, 5, 2, 1] = [Some 0x63, Some 0x4E, Some 0x05, Some 0x37]
   \<and> map (lastWritten (display (updateDisplay
        ((boot default_PersistentConfiguration)\<lparr>currentMode := max_mode, clock := 100\<rparr>))))
      [6, 5, 2, 1] = [Some 0x40, Some 0x40, Some 0x40, Some 0x40]
   \<and> map (lastWritten (display (updateDisplay
        ((boot default_PersistentConfiguration)\<lparr>currentMode := max_mode, clock := 700\<rparr>))))
      [6, 5, 2, 1] = [Some 0x63, Some 0x4E, Some 0x05, Some 0x37]
   \<and> map (lastWritten (display (updateDisplay
        ((boot default_PersistentConfiguration)\<lparr>currentMode := humidifierLowerOnThreshold_mode, clock := 100\<rparr>))))
      [2, 1] = [Some 0x08, Some 0x08]
   \<and> map (lastWritten (display (updateDisplay
        ((boot default_PersistentConfiguration)\<lparr>currentMode := humidifierLowerOnThreshold_mode, clock := 700\<rparr>))))
      [2, 1] = [Some 0x05, Some 0x37]
   \<and> map (lastWritten (display (updateDisplay
        ((boot default_PersistentConfiguration)\<lparr>currentMode := humidifierUpperOffThreshold_mode, clock := 100\<rparr>))))
      [2, 1] = [Some 0x40, Some 0x40]
   \<and> map (lastWritten (display (updateDisplay
        ((boot default_PersistentConfiguration)\<lparr>currentMode := humidifierUpperOffThreshold_mode, clock := 700\<rparr>))))
      [2, 1] = [Some 0x05, Some 0x37]"
proof -
  have h1: "currentMode ((boot default_PersistentConfiguration)\<lparr>currentMode := min_mode, clock := 100\<rparr>) = min_mode
      \<and> unat (millis ((boot default_PersistentConfiguration)\<lparr>currentMode := min_mode, clock := 100\<rparr>) - modeSelectedTime 
        ((boot default_PersistentConfiguration)\<lparr>currentMode := min_mode, clock := 100\<rparr>)) mod 1000 \<le> 500"
    by (simp add: millis_def boot_def)
  have c1: "map (lastWritten (display (updateDisplay
        ((boot default_PersistentConfiguration)\<lparr>currentMode := min_mode, clock := 100\<rparr>))))
      [6, 5, 2, 1] = [Some 0x08, Some 0x08, Some 0x08, Some 0x08]"
    by (rule updateDisplay_blink_glyphs [where s = "(boot default_PersistentConfiguration)\<lparr>currentMode := min_mode, clock := 100\<rparr>",
          THEN conjunct1, THEN mp, OF h1])
  have h2: "currentMode ((boot default_PersistentConfiguration)\<lparr>currentMode := min_mode, clock := 700\<rparr>) = min_mode
      \<and> 500 < unat (millis ((boot default_PersistentConfiguration)\<lparr>currentMode := min_mode, clock := 700\<rparr>) - modeSelectedTime 
        ((boot default_PersistentConfiguration)\<lparr>currentMode := min_mode, clock := 700\<rparr>)) mod 1000"
    by (simp add: millis_def boot_def)
  have c2: "map (lastWritten (display (updateDisplay
        ((boot default_PersistentConfiguration)\<lparr>currentMode := min_mode, clock := 700\<rparr>))))
      [6, 5, 2, 1] = [Some 0x63, Some 0x4E, Some 0x05, Some 0x37]"
    by (rule updateDisplay_blink_glyphs [where s = "(boot default_PersistentConfiguration)\<lparr>currentMode := min_mode, clock := 700\<rparr>",
          THEN conjunct2, THEN conjunct1, THEN mp, OF h2])
  have h3: "currentMode ((boot default_PersistentConfiguration)\<lparr>currentMode := max_mode, clock := 100\<rparr>) = max_mode
      \<and> unat (millis ((boot default_PersistentConfiguration)\<lparr>currentMode := max_mode, clock := 100\<rparr>) - modeSelectedTime 
        ((boot default_PersistentConfiguration)\<lparr>currentMode := max_mode, clock := 100\<rparr>)) mod 1000 \<le> 500"
    by (simp add: millis_def boot_def)
  have c3: "map (lastWritten (display (updateDisplay
        ((boot default_PersistentConfiguration)\<lparr>currentMode := max_mode, clock := 100\<rparr>))))
      [6, 5, 2, 1] = [Some 0x40, Some 0x40, Some 0x40, Some 0x40]"
    by (rule updateDisplay_blink_glyphs [where s = "(boot default_PersistentConfiguration)\<lparr>currentMode := max_mode, clock := 100\<rparr>",
          THEN conjunct2, THEN conjunct2, THEN conjunct1, THEN mp, OF h3])
  have h4: "currentMode ((boot default_PersistentConfiguration)\<lparr>currentMode := max_mode, clock := 700\<rparr>) = max_mode
      \<and> 500 < unat (millis ((boot default_PersistentConfiguration)\<lparr>currentMode := max_mode, clock := 700\<rparr>) - modeSelectedTime 
        ((boot default_PersistentConfiguration)\<lparr>currentMode := max_mode, clock := 700\<rparr>)) mod 1000"
    by (simp add: millis_def boot_def)
  have c4: "map (lastWritten (display (updateDisplay
        ((boot default_PersistentConfiguration)\<lparr>currentMode := max_mode, clock := 700\<rparr>))))
      [6, 5, 2, 1] = [Some 0x63, Some 0x4E, Some 0x05, Some 0x37]"
    by (rule updateDisplay_blink_glyphs [where s = "(boot default_PersistentConfiguration)\<lparr>currentMode := max_mode, clock := 700\<rparr>",
          THEN conjunct2, THEN conjunct2, THEN conjunct2, THEN conjunct1, THEN mp, OF h4])
  have h5: "currentMode ((boot default_PersistentConfiguration)\<lparr>currentMode := humidifierLowerOnThreshold_mode, clock := 100\<rparr>) = humidifierLowerOnThreshold_mode
      \<and> unat (millis ((boot default_PersistentConfiguration)\<lparr>currentMode := humidifierLowerOnThreshold_mode, clock := 100\<rparr>) - modeSelectedTime 
        ((boot default_PersistentConfiguration)\<lparr>currentMode := humidifierLowerOnThreshold_mode, clock := 100\<rparr>)) mod 1000 \<le> 500"
    by (simp add: millis_def boot_def)
  have c5: "map (lastWritten (display (updateDisplay
        ((boot default_PersistentConfiguration)\<lparr>currentMode := humidifierLowerOnThreshold_mode, clock := 100\<rparr>))))
      [2, 1] = [Some 0x08, Some 0x08]"
    by (rule updateDisplay_blink_glyphs [where s = "(boot default_PersistentConfiguration)\<lparr>currentMode := humidifierLowerOnThreshold_mode, clock := 100\<rparr>",
          THEN conjunct2, THEN conjunct2, THEN conjunct2, THEN conjunct2, THEN conjunct1, THEN mp, OF h5])
  have h6: "currentMode ((boot default_PersistentConfiguration)\<lparr>currentMode := humidifierLowerOnThreshold_mode, clock := 700\<rparr>) = humidifierLowerOnThreshold_mode
      \<and> 500 < unat (millis ((boot default_PersistentConfiguration)\<lparr>currentMode := humidifierLowerOnThreshold_mode, clock := 700\<rparr>) - modeSelectedTime 
        ((boot default_PersistentConfiguration)\<lparr>currentMode := humidifierLowerOnThreshold_mode, clock := 700\<rparr>)) mod 1000"
    by (simp add: millis_def boot_def)
  have c6: "map (lastWritten (display (updateDisplay
        ((boot default_PersistentConfiguration)\<lparr>currentMode := humidifierLowerOnThreshold_mode, clock := 700\<rparr>))))
      [2, 1] = [Some 0x05, Some 0x37]"
    by (rule updateDisplay_blink_glyphs [where s = "(boot default_PersistentConfiguration)\<lparr>currentMode := humidifierLowerOnThreshold_mode, clock := 700\<rparr>",
          THEN conjunct2, THEN conjunct2, THEN conjunct2, THEN conjunct2, THEN conjunct2, THEN conjunct1, THEN mp, OF h6])
  have h7: "currentMode ((boot default_PersistentConfiguration)\<lparr>currentMode := humidifierUpperOffThreshold_mode, clock := 100\<rparr>) = humidifierUpperOffThreshold_mode
      \<and> unat (millis ((boot default_PersistentConfiguration)\<lparr>currentMode := humidifierUpperOffThreshold_mode, clock := 100\<rparr>) - modeSelectedTime 
        ((boot default_PersistentConfiguration)\<lparr>currentMode := humidifierUpperOffThreshold_mode, clock := 100\<rparr>)) mod 1000 \<le> 500"
    by (simp add: millis_def boot_def)
  have c7: "map (lastWritten (display (updateDisplay
        ((boot default_PersistentConfiguration)\<lparr>currentMode := humidifierUpperOffThreshold_mode, clock := 100\<rparr>))))
      [2, 1] = [Some 0x40, Some 0x40]"
    by (rule updateDisplay_blink_glyphs [where s = "(boot default_PersistentConfiguration)\<lparr>currentMode := humidifierUpperOffThreshold_mode, clock := 100\<rparr>",
          THEN conjunct2, THEN conjunct2, THEN conjunct2, THEN conjunct2, THEN conjunct2, THEN conjunct2, THEN conjunct1, THEN mp, OF h7])
  have h8: "currentMode ((boot default_PersistentConfiguration)\<lparr>currentMode := humidifierUpperOffThreshold_mode, clock := 700\<rparr>) = humidifierUpperOffThreshold_mode
      \<and> 500 < unat (millis ((boot default_PersistentConfiguration)\<lparr>currentMode := humidifierUpperOffThreshold_mode, clock := 700\<rparr>) - modeSelectedTime 
        ((boot default_PersistentConfiguration)\<lparr>currentMode := humidifierUpperOffThreshold_mode, clock := 700\<rparr>)) mod 1000"
    by (simp add: millis_def boot_def)
  have c8: "map (lastWritten (display (updateDisplay
        ((boot default_PersistentConfiguration)\<lparr>currentMode := humidifierUpperOffThreshold_mode, clock := 700\<rparr>))))
      [2, 1] = [Some 0x05, Some 0x37]"
    by (rule updateDisplay_blink_glyphs [where s = "(boot default_PersistentConfiguration)\<lparr>currentMode := humidifierUpperOffThreshold_mode, clock := 700\<rparr>",
          THEN conjunct2, THEN conjunct2, THEN conjunct2, THEN conjunct2, THEN conjunct2, THEN conjunct2, THEN conjunct2, THEN mp, OF h8])
  show ?thesis
    using c1 c2 c3 c4 c5 c6 c7 c8 by (intro conjI)
qed

text \<open>
  The claim as it was stated fails in the mode min: 100 ms into the cycle the sign
  positions hold the marker, and 700 ms into it they hold the normal glyphs.
\<close>

theorem updateDisplay_blink_glyphs_counterexample:
  "unat (millis 
        ((boot default_PersistentConfiguration)\<lparr>currentMode := min_mode, clock := 100\<rparr>) - modeSelectedTime 
        ((boot default_PersistentConfiguration)\<lparr>currentMode := min_mode, clock := 100\<rparr>)) mod 1000 = 100
   \<and> map (lastWritten (display (updateDisplay 
        ((boot default_PersistentConfiguration)\<lparr>currentMode := min_mode, clock := 100\<rparr>)))) [6, 5, 2, 1]
       = [Some 0x08, Some 0x08, Some 0x08, Some 0x08]
   \<and> unat (millis 
        ((boot default_PersistentConfiguration)\<lparr>currentMode := min_mode, clock := 700\<rparr>) - modeSelectedTime 
        ((boot default_PersistentConfiguration)\<lparr>currentMode := min_mode, clock := 700\<rparr>)) mod 1000 = 700
   \<and> map (lastWritten (display (updateDisplay 
        ((boot default_PersistentConfiguration)\<lparr>currentMode := min_mode, clock := 700\<rparr>)))) [6, 5, 2, 1]
       = [Some 0x63, Some 0x4E, Some 0x05, Some 0x37]"
proof -
  let ?S1 = "(boot default_PersistentConfiguration)\<lparr>currentMode := min_mode, clock := 100\<rparr>"
  let ?S2 = "(boot default_PersistentConfiguration)\<lparr>currentMode := min_mode, clock := 700\<rparr>"
  have e1: "unat (millis ?S1 - modeSelectedTime ?S1) mod 1000 = 100"
    and e2: "unat (millis ?S2 - modeSelectedTime ?S2) mod 1000 = 700"
    by (simp_all add: millis_def boot_def)
  have b1: "getBlinkStatus ?S1 = False" and b2: "getBlinkStatus ?S2 = True"
    by (simp_all add: getBlinkStatus_unat millis_def boot_def)
  have m1: "currentMode ?S1 = min_mode" and m2: "currentMode ?S2 = min_mode"
    by simp_all
  have g1: "map (lastWritten (display (updateDisplay ?S1))) [6, 5, 2, 1]
       = [Some 0x08, Some 0x08, Some 0x08, Some 0x08]"
    by (simp only: signs_min [OF m1] b1 if_False)
  have g2: "map (lastWritten (display (updateDisplay ?S2))) [6, 5, 2, 1]
       = [Some 0x63, Some 0x4E, Some 0x05, Some 0x37]"
    by (simp only: signs_min [OF m2] b2 if_True)
  show ?thesis
    using e1 g1 e2 g2 by (intro conjI)
qed

end
